theory Spec2Isabelle
  imports Main "HOL-Library.Word" "HOL-Library.Sublist"
begin

unbundle bit_operations_syntax

section \<open>lxc-unshare: data model\<close>

text \<open>
  The development embeds \<^verbatim>\<open>src/lxc/tools/lxc_unshare.c\<close>. The program is a sequence of
  calls into the C library, the kernel and other files of lxc. Every such call is a field
  of the record \<open>world\<close> below (its result, as a function of its arguments), and every
  call with an effect is written to a trace of \<open>event\<close>s in program order. Output to
  stderr is not modelled.
\<close>

type_synonym cint = int
type_synonym pid_t = int
type_synonym uid_t = "32 word"

definition EXIT_SUCCESS :: cint where
  "EXIT_SUCCESS = 0"

definition EXIT_FAILURE :: cint where
  "EXIT_FAILURE = 1"

text \<open>The namespace bits of \<^verbatim>\<open><sched.h>\<close> that the program tests, and the USER bit.\<close>

definition CLONE_NEWNS :: "32 word" where
  "CLONE_NEWNS = 0x00020000"

definition CLONE_NEWUTS :: "32 word" where
  "CLONE_NEWUTS = 0x04000000"

definition CLONE_NEWUSER :: "32 word" where
  "CLONE_NEWUSER = 0x10000000"

definition CLONE_NEWNET :: "32 word" where
  "CLONE_NEWNET = 0x40000000"

text \<open>
  \<^verbatim>\<open>struct start_arg\<close> (lines 140-148). The members \<^verbatim>\<open>args\<close>, \<^verbatim>\<open>flags\<close> and \<^verbatim>\<open>uid\<close>
  point at locals of \<^verbatim>\<open>main\<close>; the record holds the values they point at.
\<close>

record start_arg =
  args :: "string list"
  flags :: "32 word"
  uid :: uid_t
  setuid :: bool
  want_default_mounts :: cint
  wait_fd :: cint
  want_hostname :: "string option"

text \<open>
  The locals of \<^verbatim>\<open>main\<close> (lines 226-242): \<^verbatim>\<open>start_arg\<close> with the variables it points
  at, and \<^verbatim>\<open>namespaces\<close>, \<^verbatim>\<open>my_iflist\<close> (the linked list of \<^verbatim>\<open>struct my_iflist\<close>, head
  first) and \<^verbatim>\<open>daemonize\<close>.
\<close>

record main_vars = start_arg +
  namespaces :: "string option"
  my_iflist :: "string list"
  daemonize :: cint

text \<open>
  What \<^verbatim>\<open>getopt(argc, argv, "s:u:hH:i:dM")\<close> returns, one value per iteration of the
  loop at line 244. \<open>Opt_other\<close> is any return value without a \<^verbatim>\<open>case\<close> in the switch
  (\<^verbatim>\<open>'?'\<close> for an unknown option).
\<close>

datatype getopt_ret =
    Opt_s string
  | Opt_i string
  | Opt_d
  | Opt_M
  | Opt_H string
  | Opt_h
  | Opt_u string
  | Opt_other

text \<open>
  The results of the calls the program makes outside this file. \<open>w_malloc k\<close> is
  whether the allocation made while option number \<open>k\<close> is handled succeeds.
  \<open>w_sscanf_u\<close> and \<open>w_sscanf_s\<close> are the conversions \<^verbatim>\<open>%u\<close> and \<^verbatim>\<open>%s\<close> of
  \<^verbatim>\<open>sscanf\<close> (\<open>None\<close>: fewer than one item converted). \<open>w_getpwnam_r\<close> and
  \<open>w_getpwuid_r\<close> say whether \<^verbatim>\<open>pwentp\<close> is set, with \<^verbatim>\<open>pw_uid\<close> for a name.
  \<open>w_fork k\<close> is the \<open>k\<close>-th \<^verbatim>\<open>fork()\<close>: \<open>None\<close> when it fails (the caller gets -1 and
  there is no child), \<open>Some n\<close> when the child exists (the caller gets the positive process
  id \<open>1 + n\<close>, the child gets 0). \<open>w_wait_for_pid k\<close> is the \<open>k\<close>-th call of
  \<^verbatim>\<open>wait_for_pid\<close>. \<open>w_read\<close> is the \<^verbatim>\<open>read\<close> on the eventfd: \<open>None\<close> when it
  never returns. \<open>w_execvp\<close> is whether \<^verbatim>\<open>execvp\<close> replaces the process image.
\<close>

record world =
  w_malloc :: "nat \<Rightarrow> bool"
  w_sscanf_u :: "string \<Rightarrow> uid_t option"
  w_sscanf_s :: "string \<Rightarrow> string option"
  w_getpwnam_r :: "string \<Rightarrow> uid_t option"
  w_getpwuid_r :: "uid_t \<Rightarrow> bool"
  w_lxc_caps_init :: cint
  w_lxc_namespace_2_std_identifiers :: "string option \<Rightarrow> cint"
  w_lxc_fill_namespace_flags :: "string option \<Rightarrow> cint \<times> 32 word"
  w_eventfd :: cint
  w_lxc_clone :: "32 word \<Rightarrow> pid_t"
  w_getuid :: uid_t
  w_write_id_mapping :: "pid_t \<Rightarrow> string \<Rightarrow> cint"
  w_write :: "cint \<Rightarrow> cint"
  w_fork :: "nat \<Rightarrow> nat option"
  w_wait_for_pid :: "nat \<Rightarrow> pid_t \<Rightarrow> cint"
  w_read :: "cint \<Rightarrow> cint option"
  w_umount :: "string \<Rightarrow> cint"
  w_mount :: "string \<Rightarrow> string \<Rightarrow> string \<Rightarrow> cint"
  w_access :: "string \<Rightarrow> cint"
  w_mkdir :: "string \<Rightarrow> cint"
  w_sethostname :: "string \<Rightarrow> cint"
  w_setuid :: "uid_t \<Rightarrow> cint"
  w_execvp :: "string list \<Rightarrow> bool"

text \<open>
  The calls with an effect, each with its arguments and its result. \<open>EHelper\<close> is what
  the process created by \<^verbatim>\<open>fork()\<close> at line 358 does: the argument vector it hands to
  \<^verbatim>\<open>execlp\<close>, or the status it exits with.
\<close>

datatype event =
    ECaps_init cint
  | EEventfd cint
  | EClone "32 word" start_arg pid_t
  | EWrite_id_mapping pid_t string cint
  | EWrite cint cint
  | EClose cint
  | EFork pid_t
  | EHelper "string list + cint"
  | EWait_for_pid pid_t cint
  | ERead cint cint
  | EUmount string cint
  | EMount string string string cint
  | EAccess string cint
  | EMkdir string nat cint
  | ESethostname string cint
  | ESetuid uid_t cint
  | EExecvp "string list" bool

section \<open>printf("%d")\<close>

fun show_nat :: "nat \<Rightarrow> string" where
  "show_nat n =
     (if n < 10 then [char_of (48 + n)]
      else show_nat (n div 10) @ [char_of (48 + n mod 10)])"

declare show_nat.simps [simp del]

definition show_int :: "int \<Rightarrow> string" where
  "show_int i = (if i < 0 then CHR ''-'' # show_nat (nat (- i)) else show_nat (nat i))"

text \<open>\<^verbatim>\<open>%d\<close> given a \<^verbatim>\<open>uid_t\<close>: the 32 bits are read as a signed int.\<close>

definition printf_d_uid :: "uid_t \<Rightarrow> string" where
  "printf_d_uid u = show_int (sint u)"

section \<open>The guest: mount_fs, lxc_setup_fs, do_start\<close>

text \<open>
  \<^verbatim>\<open>mount_fs\<close> (lines 150-159). The \<^verbatim>\<open>if (umount(target) < 0)\<close> of line 153 has no
  statement of its own before the blank line, so the \<^verbatim>\<open>if (mount(...) < 0) return -1;\<close>
  of lines 155-156 is its body.
\<close>

definition mount_fs :: "world \<Rightarrow> string \<Rightarrow> string \<Rightarrow> string \<Rightarrow> event list \<times> cint" where
  "mount_fs w source target type =
     (let u = w_umount w target in
      if u < 0 then
        (let m = w_mount w source target type in
         if m < 0 then ([EUmount target u, EMount source target type m], - 1)
         else ([EUmount target u, EMount source target type m], 0))
      else ([EUmount target u], 0))"

text \<open>\<^verbatim>\<open>lxc_setup_fs\<close> (lines 161-179); every result is cast to void.\<close>

definition lxc_setup_fs :: "world \<Rightarrow> event list" where
  "lxc_setup_fs w =
     fst (mount_fs w ''proc'' ''/proc'' ''proc'')
     @ [EAccess ''/dev/shm'' (w_access w ''/dev/shm'')]
     @ (if w_access w ''/dev/shm'' \<noteq> 0
        then [EMkdir ''/dev/shm'' 511 (w_mkdir w ''/dev/shm'')] else [])
     @ fst (mount_fs w ''shmfs'' ''/dev/shm'' ''tmpfs'')
     @ [EAccess ''/dev/mqueue'' (w_access w ''/dev/mqueue'')]
     @ (if w_access w ''/dev/mqueue'' \<noteq> 0
        then [EMkdir ''/dev/mqueue'' 438 (w_mkdir w ''/dev/mqueue'')] else [])
     @ fst (mount_fs w ''mqueue'' ''/dev/mqueue'' ''mqueue'')"

text \<open>
  How the guest ends: \<^verbatim>\<open>_exit\<close> with a status, the process image replaced by the
  command, \<^verbatim>\<open>do_start\<close> returning a value to \<^verbatim>\<open>lxc_clone\<close>, or the \<^verbatim>\<open>read\<close> of line 195
  never returning.
\<close>

datatype child_end =
    Child_exit cint
  | Child_exec "string list"
  | Child_return cint
  | Child_blocked

text \<open>
  A block of statements gives the events it made and, when it ended the process, how.
  \<open>seq\<close> runs the rest of the function after a block that did not end it.
\<close>

definition seq :: "event list \<times> 'r option \<Rightarrow> event list \<times> 'r \<Rightarrow> event list \<times> 'r" where
  "seq blk rest =
     (case snd blk of
        Some r \<Rightarrow> (fst blk, r)
      | None \<Rightarrow> (fst blk @ fst rest, snd rest))"

text \<open>
  \<^verbatim>\<open>do_start\<close> (lines 181-222), block by block: the \<^verbatim>\<open>read\<close> on the eventfd (lines
  193-201), the default mounts (203-204), the hostname (206-210), \<^verbatim>\<open>setuid\<close> (212-216)
  and \<^verbatim>\<open>execvp\<close> (218-221).
\<close>

definition do_start_wait :: "world \<Rightarrow> start_arg \<Rightarrow> event list \<times> child_end option" where
  "do_start_wait w start_arg =
     (if setuid start_arg then
        (case w_read w (wait_fd start_arg) of
           None \<Rightarrow> ([], Some Child_blocked)
         | Some ret \<Rightarrow>
             if ret = - 1
             then ([ERead (wait_fd start_arg) ret, EClose (wait_fd start_arg)],
                   Some (Child_exit EXIT_FAILURE))
             else ([ERead (wait_fd start_arg) ret], None))
      else ([], None))"

definition do_start_mounts :: "world \<Rightarrow> start_arg \<Rightarrow> event list \<times> child_end option" where
  "do_start_mounts w start_arg =
     (if flags start_arg AND CLONE_NEWNS \<noteq> 0 \<and> want_default_mounts start_arg \<noteq> 0
      then (lxc_setup_fs w, None) else ([], None))"

definition do_start_hostname :: "world \<Rightarrow> start_arg \<Rightarrow> event list \<times> child_end option" where
  "do_start_hostname w start_arg =
     (case want_hostname start_arg of
        None \<Rightarrow> ([], None)
      | Some h \<Rightarrow>
          if flags start_arg AND CLONE_NEWUTS \<noteq> 0 then
            (if w_sethostname w h < 0
             then ([ESethostname h (w_sethostname w h)], Some (Child_exit EXIT_FAILURE))
             else ([ESethostname h (w_sethostname w h)], None))
          else ([], None))"

definition do_start_setuid :: "world \<Rightarrow> start_arg \<Rightarrow> event list \<times> child_end option" where
  "do_start_setuid w start_arg =
     (if setuid start_arg then
        (if w_setuid w (uid start_arg) \<noteq> 0
         then ([ESetuid (uid start_arg) (w_setuid w (uid start_arg))],
               Some (Child_exit EXIT_FAILURE))
         else ([ESetuid (uid start_arg) (w_setuid w (uid start_arg))], None))
      else ([], None))"

definition do_start_exec :: "world \<Rightarrow> start_arg \<Rightarrow> event list \<times> child_end" where
  "do_start_exec w start_arg =
     (if w_execvp w (args start_arg)
      then ([EExecvp (args start_arg) True], Child_exec (args start_arg))
      else ([EExecvp (args start_arg) False], Child_return 1))"

definition do_start :: "world \<Rightarrow> start_arg \<Rightarrow> event list \<times> child_end" where
  "do_start w start_arg =
     seq (do_start_wait w start_arg)
    (seq (do_start_mounts w start_arg)
    (seq (do_start_hostname w start_arg)
    (seq (do_start_setuid w start_arg)
         (do_start_exec w start_arg))))"

section \<open>The parent: usage, lookup_user, main\<close>

text \<open>
  Where \<^verbatim>\<open>main\<close> ends the process; the number is the line of the \<^verbatim>\<open>exit\<close> or of the
  call of \<^verbatim>\<open>usage\<close>.
\<close>

datatype exit_site =
    Malloc_failed_252
  | Help_269
  | Lookup_user_failed_273
  | No_command_280
  | Caps_init_failed_287
  | Std_identifiers_failed_290
  | Fill_flags_failed_294
  | Need_network_298
  | Need_utsname_303
  | Need_mount_308
  | Eventfd_failed_315
  | Clone_failed_322
  | Snprintf_failed_336
  | Uid_mapping_failed_343
  | Eventfd_write_failed_350
  | Daemonize_383
  | Wait_failed_387
  | Guest_done_391

text \<open>\<^verbatim>\<open>usage\<close> (lines 71-84) prints the options and ends the process at line 83.\<close>

definition usage :: "exit_site \<Rightarrow> exit_site \<times> cint" where
  "usage site = (site, EXIT_SUCCESS)"

text \<open>
  \<^verbatim>\<open>lookup_user\<close> (lines 86-138): the value returned and the value left in \<^verbatim>\<open>*uid\<close>.
  The size of the buffer (lines 98-100) only reaches \<^verbatim>\<open>malloc\<close> and the two lookups,
  whose results the world gives.
\<close>

definition lookup_user :: "world \<Rightarrow> nat \<Rightarrow> string option \<Rightarrow> uid_t \<Rightarrow> bool \<times> uid_t" where
  "lookup_user w k optarg uid0 =
     (case optarg of
        None \<Rightarrow> (False, uid0)
      | Some s \<Rightarrow>
          if s = [] then (False, uid0)
          else if \<not> w_malloc w k then (False, uid0)
          else (case w_sscanf_u w s of
                  None \<Rightarrow>
                    (case w_sscanf_s w s of
                       None \<Rightarrow> (False, uid0)
                     | Some name \<Rightarrow>
                         (case w_getpwnam_r w name of
                            None \<Rightarrow> (False, uid0)
                          | Some pw_uid \<Rightarrow> (True, pw_uid)))
                | Some u \<Rightarrow>
                    if w_getpwuid_r w u then (True, u) else (False, u)))"

text \<open>The \<^verbatim>\<open>getopt\<close> loop of \<^verbatim>\<open>main\<close> (lines 244-276); \<open>k\<close> counts the iterations.\<close>

fun getopt_loop :: "world \<Rightarrow> nat \<Rightarrow> getopt_ret list \<Rightarrow> main_vars \<Rightarrow> (exit_site \<times> cint) + main_vars" where
  "getopt_loop w k [] v = Inr v"
| "getopt_loop w k (Opt_s optarg # rest) v =
     getopt_loop w (Suc k) rest (v\<lparr>namespaces := Some optarg\<rparr>)"
| "getopt_loop w k (Opt_i optarg # rest) v =
     (if \<not> w_malloc w k then Inl (Malloc_failed_252, EXIT_FAILURE)
      else getopt_loop w (Suc k) rest (v\<lparr>my_iflist := optarg # my_iflist v\<rparr>))"
| "getopt_loop w k (Opt_d # rest) v =
     getopt_loop w (Suc k) rest (v\<lparr>daemonize := 1\<rparr>)"
| "getopt_loop w k (Opt_M # rest) v =
     getopt_loop w (Suc k) rest (v\<lparr>want_default_mounts := 1\<rparr>)"
| "getopt_loop w k (Opt_H optarg # rest) v =
     getopt_loop w (Suc k) rest (v\<lparr>want_hostname := Some optarg\<rparr>)"
| "getopt_loop w k (Opt_h # rest) v = Inl (usage Help_269)"
| "getopt_loop w k (Opt_u optarg # rest) v =
     (if \<not> fst (lookup_user w k (Some optarg) (uid v)) then Inl (Lookup_user_failed_273, EXIT_FAILURE)
      else getopt_loop w (Suc k) rest
             (v\<lparr>uid := snd (lookup_user w k (Some optarg) (uid v)), setuid := True\<rparr>))"
| "getopt_loop w k (Opt_other # rest) v = getopt_loop w (Suc k) rest v"

text \<open>The initial values of the locals of \<^verbatim>\<open>main\<close> (lines 229-242).\<close>

definition main_init :: main_vars where
  "main_init =
     \<lparr>args = [], flags = 0, uid = 0, setuid = False, want_default_mounts = 0, wait_fd = 0,
      want_hostname = None, namespaces = None, my_iflist = [], daemonize = 0\<rparr>"

text \<open>
  The process that \<^verbatim>\<open>fork()\<close> creates at line 358 runs lines 364-373 with its own value
  of the \<^verbatim>\<open>pid\<close> declared at line 356, the value \<^verbatim>\<open>fork()\<close> returned to it.
\<close>

definition helper :: "pid_t \<Rightarrow> string \<Rightarrow> string list + cint" where
  "helper pid mi_ifname =
     (let buf = show_int pid; ret = int (length buf) in
      if ret < 0 \<or> ret \<ge> 256 then Inr EXIT_FAILURE
      else Inl [''ip'', ''link'', ''set'', ''dev'', mi_ifname, ''netns'', buf])"

text \<open>
  The loop over \<^verbatim>\<open>my_iflist\<close> (lines 354-380), as the parent runs it. In the new process
  \<^verbatim>\<open>fork()\<close> returned 0.
\<close>

fun move_interfaces :: "world \<Rightarrow> nat \<Rightarrow> string list \<Rightarrow> event list" where
  "move_interfaces w k [] = []"
| "move_interfaces w k (mi_ifname # mi_next) =
     (case w_fork w k of
        None \<Rightarrow> [EFork (- 1), EWait_for_pid (- 1) (w_wait_for_pid w k (- 1))]
      | Some n \<Rightarrow> [EFork (1 + int n), EHelper (helper 0 mi_ifname),
                   EWait_for_pid (1 + int n) (w_wait_for_pid w k (1 + int n))])
     @ move_interfaces w (Suc k) mi_next"

text \<open>The line that \<^verbatim>\<open>snprintf\<close> builds at line 332.\<close>

definition umap_line :: "uid_t \<Rightarrow> uid_t \<Rightarrow> string" where
  "umap_line target requester =
     printf_d_uid target @ '' '' @ printf_d_uid requester @ '' 1'' @ [CHR 0x0A]"

definition emit :: "event list \<Rightarrow> event list \<times> 'r \<Rightarrow> event list \<times> 'r" where
  "emit es res = (es @ fst res, snd res)"

text \<open>Lines 325-352 of \<^verbatim>\<open>main\<close>: the uid map and the eventfd.\<close>

definition write_uid_map :: "world \<Rightarrow> main_vars \<Rightarrow> pid_t \<Rightarrow> event list \<times> (exit_site \<times> cint) option" where
  "write_uid_map w v pid =
     (if setuid v then
        (let umap = umap_line (uid v) (w_getuid w); ret = int (length umap) in
         if ret < 0 \<or> ret \<ge> 100
         then ([EClose (wait_fd v)], Some (Snprintf_failed_336, EXIT_FAILURE))
         else if w_write_id_mapping w pid umap < 0
         then ([EWrite_id_mapping pid umap (w_write_id_mapping w pid umap), EClose (wait_fd v)],
               Some (Uid_mapping_failed_343, EXIT_FAILURE))
         else if w_write w (wait_fd v) < 0
         then ([EWrite_id_mapping pid umap (w_write_id_mapping w pid umap),
                EWrite (wait_fd v) (w_write w (wait_fd v)), EClose (wait_fd v)],
               Some (Eventfd_write_failed_350, EXIT_FAILURE))
         else ([EWrite_id_mapping pid umap (w_write_id_mapping w pid umap),
                EWrite (wait_fd v) (w_write w (wait_fd v))], None))
      else ([], None))"

text \<open>Lines 319-391 of \<^verbatim>\<open>main\<close>, from \<^verbatim>\<open>lxc_clone\<close> on.\<close>

definition launch :: "world \<Rightarrow> main_vars \<Rightarrow> event list \<times> exit_site \<times> cint" where
  "launch w v =
     (let pid = w_lxc_clone w (flags v) in
      emit [EClone (flags v) (start_arg.truncate v) pid]
        (if pid < 0 then ([], Clone_failed_322, EXIT_FAILURE)
         else
           seq (write_uid_map w v pid)
             (emit (move_interfaces w 0 (my_iflist v))
                (if daemonize v \<noteq> 0 then ([], Daemonize_383, EXIT_SUCCESS)
                 else
                   (let r = w_wait_for_pid w (length (my_iflist v)) pid in
                    if r \<noteq> 0 then ([EWait_for_pid pid r], Wait_failed_387, EXIT_FAILURE)
                    else ([EWait_for_pid pid r], Guest_done_391, EXIT_SUCCESS))))))"

text \<open>
  \<^verbatim>\<open>main\<close> (lines 224-392). \<open>opts\<close> is what \<^verbatim>\<open>getopt\<close> returns, in order, and
  \<open>command\<close> is \<^verbatim>\<open>argv\<close> from \<^verbatim>\<open>optind\<close> on.
\<close>

definition main :: "world \<Rightarrow> getopt_ret list \<Rightarrow> string list \<Rightarrow> event list \<times> exit_site \<times> cint" where
  "main w opts command =
     (case getopt_loop w 0 opts main_init of
        Inl e \<Rightarrow> ([], e)
      | Inr v0 \<Rightarrow>
          if command = [] then ([], No_command_280, EXIT_FAILURE)
          else
            (let v1 = v0\<lparr>args := command\<rparr> in
             emit [ECaps_init (w_lxc_caps_init w)]
               (if w_lxc_caps_init w \<noteq> 0 then ([], Caps_init_failed_287, EXIT_FAILURE)
                else if w_lxc_namespace_2_std_identifiers w (namespaces v1) < 0
                then ([], usage Std_identifiers_failed_290)
                else
                  (let ret = fst (w_lxc_fill_namespace_flags w (namespaces v1));
                       v2 = v1\<lparr>flags := snd (w_lxc_fill_namespace_flags w (namespaces v1))\<rparr>
                   in
                   if ret \<noteq> 0 then ([], usage Fill_flags_failed_294)
                   else if flags v2 AND CLONE_NEWNET = 0 \<and> my_iflist v2 \<noteq> []
                   then ([], Need_network_298, EXIT_FAILURE)
                   else if flags v2 AND CLONE_NEWUTS = 0 \<and> want_hostname v2 \<noteq> None
                   then ([], Need_utsname_303, EXIT_FAILURE)
                   else if flags v2 AND CLONE_NEWNS = 0 \<and> want_default_mounts v2 \<noteq> 0
                   then ([], Need_mount_308, EXIT_FAILURE)
                   else if setuid v2 then
                     emit [EEventfd (w_eventfd w)]
                       (if w_eventfd w < 0 then ([], Eventfd_failed_315, EXIT_FAILURE)
                        else launch w (v2\<lparr>wait_fd := w_eventfd w\<rparr>))
                   else launch w v2))))"

section \<open>A sample world and predicates on events\<close>

text \<open>
  \<open>world0\<close> is a world in which every call succeeds: the password database has the user
  \<open>alice\<close> with uid 1000 and the uid 0, the invoking user has uid 0, the guest gets the
  process id 4242, nothing is mounted at the targets (\<^verbatim>\<open>umount\<close> fails) and every
  \<^verbatim>\<open>mount\<close> works.
\<close>

definition world0 :: world where
  "world0 =
     \<lparr>w_malloc = (\<lambda>k. True),
      w_sscanf_u = (\<lambda>s. if s = ''1000'' then Some 1000 else if s = ''4711'' then Some 4711 else None),
      w_sscanf_s = (\<lambda>s. if s = [] then None else Some s),
      w_getpwnam_r = (\<lambda>name. if name = ''alice'' then Some 1000 else None),
      w_getpwuid_r = (\<lambda>u. u = 0 \<or> u = 1000),
      w_lxc_caps_init = 0,
      w_lxc_namespace_2_std_identifiers = (\<lambda>ns. if ns = None then - 1 else 0),
      w_lxc_fill_namespace_flags =
        (\<lambda>ns. if ns = Some ''PID'' then (0, 0x20000000)
              else if ns = Some ''USER'' then (0, CLONE_NEWUSER)
              else if ns = Some ''NETWORK'' then (0, CLONE_NEWNET)
              else if ns = Some ''MOUNT|UTSNAME'' then (0, CLONE_NEWNS OR CLONE_NEWUTS)
              else (- 1, 0)),
      w_eventfd = 3,
      w_lxc_clone = (\<lambda>fl. 4242),
      w_getuid = 0,
      w_write_id_mapping = (\<lambda>pid line. 0),
      w_write = (\<lambda>fd. 8),
      w_fork = (\<lambda>k. Some (4242 + k)),
      w_wait_for_pid = (\<lambda>k pid. 0),
      w_read = (\<lambda>fd. Some 8),
      w_umount = (\<lambda>target. - 1),
      w_mount = (\<lambda>source target type. 0),
      w_access = (\<lambda>path. 0),
      w_mkdir = (\<lambda>path. 0),
      w_sethostname = (\<lambda>name. 0),
      w_setuid = (\<lambda>u. 0),
      w_execvp = (\<lambda>argv. True)\<rparr>"

text \<open>The events of \<^verbatim>\<open>mount_fs\<close> and \<^verbatim>\<open>lxc_setup_fs\<close>.\<close>

fun is_fs_event :: "event \<Rightarrow> bool" where
  "is_fs_event (EUmount t r) = True"
| "is_fs_event (EMount s t ty r) = True"
| "is_fs_event (EAccess p r) = True"
| "is_fs_event (EMkdir p m r) = True"
| "is_fs_event e = False"

text \<open>
  The calls of \<^verbatim>\<open>wait_for_pid\<close>, the calls of \<^verbatim>\<open>write_id_mapping\<close>.
\<close>

fun is_wait :: "event \<Rightarrow> bool" where
  "is_wait (EWait_for_pid p r) = True"
| "is_wait e = False"

fun is_write_id_mapping :: "event \<Rightarrow> bool" where
  "is_write_id_mapping (EWrite_id_mapping p l r) = True"
| "is_write_id_mapping e = False"

text \<open>
  The mapping line as the specification words it: the requester's uid, the target uid
  and the length 1.
\<close>

definition spec_umap_line :: "uid_t \<Rightarrow> uid_t \<Rightarrow> string" where
  "spec_umap_line requester target = printf_d_uid requester @ '' '' @ printf_d_uid target @ '' 1''"

text \<open>
  The exits of \<^verbatim>\<open>main\<close> from \<^verbatim>\<open>lxc_clone\<close> on (lines 319-391).
\<close>

definition launch_sites :: "exit_site set" where
  "launch_sites = {Clone_failed_322, Snprintf_failed_336, Uid_mapping_failed_343,
     Eventfd_write_failed_350, Daemonize_383, Wait_failed_387, Guest_done_391}"

section \<open>Parent and guest together\<close>

text \<open>
  After \<^verbatim>\<open>lxc_clone\<close> the parent (\<^verbatim>\<open>main\<close>) and the guest (\<^verbatim>\<open>do_start\<close>) are two
  processes. A run of the two is a list of their calls, each with the process that made
  it, in the order in which the calls took effect: an element of \<open>shuffles\<close> of what the
  parent has done so far and what the guest has done so far.
\<close>

datatype proc = Parent | Guest

definition done_by :: "proc \<Rightarrow> (event \<Rightarrow> bool) \<Rightarrow> proc \<times> event \<Rightarrow> bool" where
  "done_by p P x \<longleftrightarrow> fst x = p \<and> P (snd x)"

text \<open>
  \<open>precedes P Q xs\<close>: every element of \<open>xs\<close> with \<open>Q\<close> has an element with \<open>P\<close>
  before it.
\<close>

fun precedes :: "('a \<Rightarrow> bool) \<Rightarrow> ('a \<Rightarrow> bool) \<Rightarrow> 'a list \<Rightarrow> bool" where
  "precedes P Q [] = True"
| "precedes P Q (x # xs) = (\<not> Q x \<and> (P x \<or> precedes P Q xs))"

text \<open>
  The eventfd (\<^verbatim>\<open>eventfd(2)\<close>; section 6 of the specification: a counter, "signal" is a
  write of a nonzero count, "wait" is a blocking read that returns once signalled). It is
  created with the count 0 at line 312. A \<^verbatim>\<open>write\<close> that succeeds adds \<^verbatim>\<open>wait_val\<close>, which
  is 1; a \<^verbatim>\<open>read\<close> returns without error only when the count is not 0, and sets it to 0.
  \<open>eventfd_run fd c es\<close>: the calls \<open>es\<close> are possible on the eventfd \<open>fd\<close> with the
  count \<open>c\<close>.
\<close>

fun eventfd_run :: "cint \<Rightarrow> nat \<Rightarrow> event list \<Rightarrow> bool" where
  "eventfd_run fd c [] = True"
| "eventfd_run fd c (EWrite fd' r # es) =
     eventfd_run fd (if fd' = fd \<and> 0 \<le> r then Suc c else c) es"
| "eventfd_run fd c (ERead fd' r # es) =
     (if fd' = fd \<and> r \<noteq> - 1 then 0 < c \<and> eventfd_run fd 0 es else eventfd_run fd c es)"
| "eventfd_run fd c (e # es) = eventfd_run fd c es"

text \<open>
  The calls the claims speak of: \<^verbatim>\<open>write_id_mapping\<close> returning without error (line
  339), the \<^verbatim>\<open>write\<close> to the eventfd returning without error (line 346), the \<^verbatim>\<open>read\<close> on
  the eventfd returning without error (line 195), \<^verbatim>\<open>setuid\<close> (line 213), and the calls of
  the guest after the \<^verbatim>\<open>read\<close> (lines 203-218).
\<close>

fun map_written :: "event \<Rightarrow> bool" where
  "map_written (EWrite_id_mapping p l r) = (0 \<le> r)"
| "map_written e = False"

fun gate_signalled :: "cint \<Rightarrow> event \<Rightarrow> bool" where
  "gate_signalled fd (EWrite fd' r) = (fd' = fd \<and> 0 \<le> r)"
| "gate_signalled fd e = False"

fun gate_passed :: "cint \<Rightarrow> event \<Rightarrow> bool" where
  "gate_passed fd (ERead fd' r) = (fd' = fd \<and> r \<noteq> - 1)"
| "gate_passed fd e = False"

fun is_setuid :: "event \<Rightarrow> bool" where
  "is_setuid (ESetuid u r) = True"
| "is_setuid e = False"

fun bootstrap_step :: "event \<Rightarrow> bool" where
  "bootstrap_step (EUmount t r) = True"
| "bootstrap_step (EMount s t ty r) = True"
| "bootstrap_step (EAccess p r) = True"
| "bootstrap_step (EMkdir p m r) = True"
| "bootstrap_step (ESethostname h r) = True"
| "bootstrap_step (ESetuid u r) = True"
| "bootstrap_step (EExecvp a ok) = True"
| "bootstrap_step e = False"

section \<open>The guest's mounts\<close>

lemma mount_fs_events: "\<forall>e \<in> set (fst (mount_fs w s t ty)). is_fs_event e"
  by (simp add: mount_fs_def Let_def)

lemma lxc_setup_fs_events: "filter is_fs_event (lxc_setup_fs w) = lxc_setup_fs w"
  "filter (\<lambda>e. \<not> is_fs_event e) (lxc_setup_fs w) = []"
  using mount_fs_events by (auto simp add: lxc_setup_fs_def filter_empty_conv)

lemma fst_seq: "fst (seq blk rest) = (case snd blk of Some r \<Rightarrow> fst blk | None \<Rightarrow> fst blk @ fst rest)"
  by (simp add: seq_def split: option.splits)

lemma snd_seq: "snd (seq blk rest) = (case snd blk of Some r \<Rightarrow> r | None \<Rightarrow> snd rest)"
  by (simp add: seq_def split: option.splits)


lemma filter_fst_seq:
  "filter P (fst (seq blk rest)) =
     (case snd blk of Some r \<Rightarrow> filter P (fst blk) | None \<Rightarrow> filter P (fst blk) @ filter P (fst rest))"
  by (simp add: seq_def split: option.splits)

lemma do_start_wait_no_fs: "filter is_fs_event (fst (do_start_wait w sa)) = []"
  by (simp add: do_start_wait_def split: option.splits)

lemma do_start_hostname_no_fs: "filter is_fs_event (fst (do_start_hostname w sa)) = []"
  by (simp add: do_start_hostname_def split: option.splits)

lemma do_start_setuid_no_fs: "filter is_fs_event (fst (do_start_setuid w sa)) = []"
  by (simp add: do_start_setuid_def)

lemma do_start_exec_no_fs: "filter is_fs_event (fst (do_start_exec w sa)) = []"
  by (simp add: do_start_exec_def)

lemma filter_not_id: "filter P xs = [] \<Longrightarrow> filter (\<lambda>e. \<not> P e) xs = xs"
  by (induction xs) (auto split: if_splits)

lemmas do_start_no_fs =
  do_start_wait_no_fs do_start_hostname_no_fs do_start_setuid_no_fs do_start_exec_no_fs
  do_start_wait_no_fs [THEN filter_not_id] do_start_hostname_no_fs [THEN filter_not_id]
  do_start_setuid_no_fs [THEN filter_not_id] do_start_exec_no_fs [THEN filter_not_id]

lemma do_start_blocks_fs_world:
  "do_start_wait (w\<lparr>w_umount := um, w_mount := mo, w_access := ac, w_mkdir := mk\<rparr>) sa = do_start_wait w sa"
  "do_start_hostname (w\<lparr>w_umount := um, w_mount := mo, w_access := ac, w_mkdir := mk\<rparr>) sa = do_start_hostname w sa"
  "do_start_setuid (w\<lparr>w_umount := um, w_mount := mo, w_access := ac, w_mkdir := mk\<rparr>) sa = do_start_setuid w sa"
  "do_start_exec (w\<lparr>w_umount := um, w_mount := mo, w_access := ac, w_mkdir := mk\<rparr>) sa = do_start_exec w sa"
  by (simp_all add: do_start_wait_def do_start_hostname_def do_start_setuid_def do_start_exec_def
        split: option.splits)

lemma do_start_blocks_no_mounts:
  "do_start_wait w (sa\<lparr>want_default_mounts := 0\<rparr>) = do_start_wait w sa"
  "do_start_mounts w (sa\<lparr>want_default_mounts := 0\<rparr>) = ([], None)"
  "do_start_hostname w (sa\<lparr>want_default_mounts := 0\<rparr>) = do_start_hostname w sa"
  "do_start_setuid w (sa\<lparr>want_default_mounts := 0\<rparr>) = do_start_setuid w sa"
  "do_start_exec w (sa\<lparr>want_default_mounts := 0\<rparr>) = do_start_exec w sa"
  by (simp_all add: do_start_wait_def do_start_mounts_def do_start_hostname_def do_start_setuid_def
        do_start_exec_def split: option.splits)

lemma do_start_wait_passes:
  "snd (do_start_wait w sa) = None \<longleftrightarrow>
     \<not> (setuid sa \<and> (w_read w (wait_fd sa) = None \<or> w_read w (wait_fd sa) = Some (- 1)))"
  by (simp add: do_start_wait_def split: option.splits)

text \<open>
  C4. The claim: \<^verbatim>\<open>mount_fs\<close> unmounts the target best-effort and then attempts the mount
  whether the unmount succeeded or failed. In the code the mount is the body of
  \<^verbatim>\<open>if (umount(target) < 0)\<close>: where something is mounted at \<^verbatim>\<open>/proc\<close> and \<^verbatim>\<open>umount\<close>
  succeeds, \<^verbatim>\<open>mount\<close> is never called and \<^verbatim>\<open>mount_fs\<close> returns 0.
\<close>

theorem mount_fs_skips_mount_after_umount:
  "mount_fs (world0\<lparr>w_umount := (\<lambda>target. 0)\<rparr>) ''proc'' ''/proc'' ''proc''
     = ([EUmount ''/proc'' 0], 0)"
  by (simp add: mount_fs_def world0_def)

text \<open>The same in every world: after an \<^verbatim>\<open>umount\<close> that succeeds there is no \<^verbatim>\<open>mount\<close>.\<close>

lemma mount_fs_after_umount:
  "\<not> w_umount w target < 0 \<Longrightarrow>
     mount_fs w source target type = ([EUmount target (w_umount w target)], 0)"
  by (simp add: mount_fs_def)

text \<open>After an \<^verbatim>\<open>umount\<close> that fails, \<^verbatim>\<open>mount_fs\<close> fails exactly when \<^verbatim>\<open>mount\<close> fails.\<close>

lemma mount_fs_after_failed_umount:
  "w_umount w target < 0 \<Longrightarrow>
     mount_fs w source target type
       = ([EUmount target (w_umount w target), EMount source target type (w_mount w source target type)],
          if w_mount w source target type < 0 then - 1 else 0)"
  by (simp add: mount_fs_def)

text \<open>
  C8. In a guest started with the MOUNT flag and default mounts, whatever \<^verbatim>\<open>umount\<close>,
  \<^verbatim>\<open>mount\<close>, \<^verbatim>\<open>access\<close> and \<^verbatim>\<open>mkdir\<close> return, \<^verbatim>\<open>do_start\<close> ends as it ends without
  default mounts, and its calls other than those four are the calls it makes without
  default mounts, in the same order (the hostname, \<^verbatim>\<open>setuid\<close>, \<^verbatim>\<open>execvp\<close>); the four are
  those of \<^verbatim>\<open>lxc_setup_fs\<close>, made once the \<^verbatim>\<open>read\<close> on the eventfd has returned.
\<close>

theorem do_start_mounts_best_effort:
  assumes "flags sa AND CLONE_NEWNS \<noteq> 0" and "want_default_mounts sa \<noteq> 0"
  shows "snd (do_start (w\<lparr>w_umount := um, w_mount := mo, w_access := ac, w_mkdir := mk\<rparr>) sa)
           = snd (do_start w (sa\<lparr>want_default_mounts := 0\<rparr>))
       \<and> filter (\<lambda>e. \<not> is_fs_event e)
           (fst (do_start (w\<lparr>w_umount := um, w_mount := mo, w_access := ac, w_mkdir := mk\<rparr>) sa))
           = fst (do_start w (sa\<lparr>want_default_mounts := 0\<rparr>))
       \<and> filter is_fs_event
           (fst (do_start (w\<lparr>w_umount := um, w_mount := mo, w_access := ac, w_mkdir := mk\<rparr>) sa))
           = (if setuid sa \<and> (w_read w (wait_fd sa) = None \<or> w_read w (wait_fd sa) = Some (- 1)) then []
              else lxc_setup_fs (w\<lparr>w_umount := um, w_mount := mo, w_access := ac, w_mkdir := mk\<rparr>))"
proof -
  let ?w = "w\<lparr>w_umount := um, w_mount := mo, w_access := ac, w_mkdir := mk\<rparr>"
  have m: "do_start_mounts ?w sa = (lxc_setup_fs ?w, None)"
    using assms by (simp add: do_start_mounts_def)
  have 1: "snd (do_start ?w sa) = snd (do_start w (sa\<lparr>want_default_mounts := 0\<rparr>))"
    by (simp add: do_start_def snd_seq m do_start_blocks_fs_world do_start_blocks_no_mounts
          split: option.splits)
  have 2: "filter (\<lambda>e. \<not> is_fs_event e) (fst (do_start ?w sa))
             = fst (do_start w (sa\<lparr>want_default_mounts := 0\<rparr>))"
    by (simp add: do_start_def filter_fst_seq fst_seq snd_seq m do_start_blocks_fs_world
          do_start_blocks_no_mounts do_start_no_fs lxc_setup_fs_events split: option.splits)
  have 3: "filter is_fs_event (fst (do_start ?w sa)) =
      (if setuid sa \<and> (w_read w (wait_fd sa) = None \<or> w_read w (wait_fd sa) = Some (- 1)) then []
       else lxc_setup_fs ?w)"
  proof (cases "snd (do_start_wait w sa)")
    case None
    then have "\<not> (setuid sa \<and> (w_read w (wait_fd sa) = None \<or> w_read w (wait_fd sa) = Some (- 1)))"
      using do_start_wait_passes [of w sa] by simp
    with None show ?thesis
      by (auto simp add: do_start_def filter_fst_seq snd_seq m do_start_blocks_fs_world
            do_start_no_fs lxc_setup_fs_events split: option.splits)
  next
    case (Some r)
    then have "setuid sa \<and> (w_read w (wait_fd sa) = None \<or> w_read w (wait_fd sa) = Some (- 1))"
      using do_start_wait_passes [of w sa] by simp
    with Some show ?thesis
      by (simp add: do_start_def filter_fst_seq snd_seq m do_start_blocks_fs_world do_start_no_fs)
  qed
  from 1 2 3 show ?thesis by blast
qed


theorem do_start_mounts_best_effort_witness:
  "flags \<lparr>args = [''sh''], flags = CLONE_NEWNS OR CLONE_NEWUTS, uid = 1000, setuid = True,
           want_default_mounts = 1, wait_fd = 3, want_hostname = Some ''guest''\<rparr> AND CLONE_NEWNS \<noteq> 0
   \<and> snd (do_start (world0\<lparr>w_umount := (\<lambda>t. - 1), w_mount := (\<lambda>s t ty. - 1),
                            w_access := (\<lambda>p. - 1), w_mkdir := (\<lambda>p. - 1)\<rparr>)
          \<lparr>args = [''sh''], flags = CLONE_NEWNS OR CLONE_NEWUTS, uid = 1000, setuid = True,
           want_default_mounts = 1, wait_fd = 3, want_hostname = Some ''guest''\<rparr>) = Child_exec [''sh'']
   \<and> filter (\<lambda>e. \<not> is_fs_event e)
       (fst (do_start (world0\<lparr>w_umount := (\<lambda>t. - 1), w_mount := (\<lambda>s t ty. - 1),
                               w_access := (\<lambda>p. - 1), w_mkdir := (\<lambda>p. - 1)\<rparr>)
          \<lparr>args = [''sh''], flags = CLONE_NEWNS OR CLONE_NEWUTS, uid = 1000, setuid = True,
           want_default_mounts = 1, wait_fd = 3, want_hostname = Some ''guest''\<rparr>))
       = [ERead 3 8, ESethostname ''guest'' 0, ESetuid 1000 0, EExecvp [''sh''] True]"
proof -
  let ?sa = "\<lparr>args = [''sh''], flags = CLONE_NEWNS OR CLONE_NEWUTS, uid = 1000, setuid = True,
           want_default_mounts = 1, wait_fd = 3, want_hostname = Some ''guest''\<rparr>"
  have h1: "flags ?sa AND CLONE_NEWNS \<noteq> 0"
    by (simp add: CLONE_NEWNS_def CLONE_NEWUTS_def)
  have h2: "want_default_mounts ?sa \<noteq> 0"
    by simp
  have ref: "do_start world0 (?sa\<lparr>want_default_mounts := 0\<rparr>)
      = ([ERead 3 8, ESethostname ''guest'' 0, ESetuid 1000 0, EExecvp [''sh''] True], Child_exec [''sh''])"
    by (simp add: do_start_def do_start_wait_def do_start_mounts_def do_start_hostname_def
        do_start_setuid_def do_start_exec_def seq_def world0_def CLONE_NEWNS_def CLONE_NEWUTS_def)
  show ?thesis
    using h1 do_start_mounts_best_effort [OF h1 h2, where w = world0 and um = "\<lambda>t. - 1"
          and mo = "\<lambda>s t ty. - 1" and ac = "\<lambda>p. - 1" and mk = "\<lambda>p. - 1"]
    by (simp only: ref fst_conv snd_conv simp_thms)
qed

section \<open>The getopt loop\<close>

lemma getopt_loop_append:
  "getopt_loop w k (pre @ rest) v =
     (case getopt_loop w k pre v of
        Inl e \<Rightarrow> Inl e
      | Inr v' \<Rightarrow> getopt_loop w (k + length pre) rest v')"
  by (induction w k pre v rule: getopt_loop.induct) (simp_all split: sum.splits)

lemma getopt_loop_Inl:
  "getopt_loop w k opts v = Inl e \<Longrightarrow>
     e = (Malloc_failed_252, EXIT_FAILURE) \<or> e = (Help_269, EXIT_SUCCESS)
     \<or> e = (Lookup_user_failed_273, EXIT_FAILURE)"
  by (induction w k opts v rule: getopt_loop.induct) (auto simp add: usage_def split: if_splits)

lemma getopt_loop_Help:
  "getopt_loop w k opts v = Inl (Help_269, c) \<Longrightarrow> Opt_h \<in> set opts"
  by (induction w k opts v rule: getopt_loop.induct) (auto split: if_splits)

lemma getopt_loop_vars:
  "getopt_loop w k opts v0 = Inr v \<Longrightarrow>
     (my_iflist v \<noteq> [] \<longleftrightarrow> my_iflist v0 \<noteq> [] \<or> (\<exists>x. Opt_i x \<in> set opts))
   \<and> (want_hostname v \<noteq> None \<longleftrightarrow> want_hostname v0 \<noteq> None \<or> (\<exists>x. Opt_H x \<in> set opts))
   \<and> (want_default_mounts v \<noteq> 0 \<longleftrightarrow> want_default_mounts v0 \<noteq> 0 \<or> Opt_M \<in> set opts)
   \<and> (daemonize v \<noteq> 0 \<longleftrightarrow> daemonize v0 \<noteq> 0 \<or> Opt_d \<in> set opts)
   \<and> (setuid v \<longleftrightarrow> setuid v0 \<or> (\<exists>x. Opt_u x \<in> set opts))"
  by (induction w k opts v0 rule: getopt_loop.induct) (auto split: if_splits)

lemma getopt_loop_uid_unchanged:
  "getopt_loop w k opts v0 = Inr v \<Longrightarrow> \<forall>x. Opt_u x \<notin> set opts \<Longrightarrow> uid v = uid v0"
  by (induction w k opts v0 rule: getopt_loop.induct) (auto split: if_splits)

lemma lookup_user_success:
  "fst (lookup_user w k tok u0) \<Longrightarrow> lookup_user w k tok u1 = lookup_user w k tok u0"
  by (auto simp add: lookup_user_def split: option.splits if_splits)

lemma getopt_loop_last_u:
  assumes "getopt_loop w 0 (pre @ Opt_u tok # post) main_init = Inr v"
    and "\<forall>x. Opt_u x \<notin> set post"
  shows "fst (lookup_user w (length pre) (Some tok) 0)
       \<and> uid v = snd (lookup_user w (length pre) (Some tok) 0)"
proof -
  obtain v1 where v1: "getopt_loop w 0 pre main_init = Inr v1"
    and rest: "getopt_loop w (length pre) (Opt_u tok # post) v1 = Inr v"
    using assms(1) by (auto simp add: getopt_loop_append split: sum.splits)
  from rest have ok: "fst (lookup_user w (length pre) (Some tok) (uid v1))"
    by (auto split: if_splits)
  with rest have "getopt_loop w (Suc (length pre)) post
      (v1\<lparr>uid := snd (lookup_user w (length pre) (Some tok) (uid v1)), setuid := True\<rparr>) = Inr v"
    by simp
  from getopt_loop_uid_unchanged [OF this assms(2)]
  have "uid v = snd (lookup_user w (length pre) (Some tok) (uid v1))"
    by simp
  with ok lookup_user_success [OF ok, of 0] show ?thesis
    by simp
qed

section \<open>The structure of main\<close>

lemma fst_emit: "fst (emit es res) = es @ fst res"
  by (simp add: emit_def)

lemma snd_emit: "snd (emit es res) = snd res"
  by (simp add: emit_def)

lemma main_Inl:
  "getopt_loop w 0 opts main_init = Inl e \<Longrightarrow> main w opts command = ([], e)"
  by (simp add: main_def)

lemma main_early:
  assumes "getopt_loop w 0 opts main_init = Inr v"
    and "\<not> (command \<noteq> [] \<and> w_lxc_caps_init w = 0
           \<and> \<not> w_lxc_namespace_2_std_identifiers w (namespaces v) < 0
           \<and> fst (w_lxc_fill_namespace_flags w (namespaces v)) = 0)"
  shows "main w opts command \<in>
           {([], No_command_280, EXIT_FAILURE),
            ([ECaps_init (w_lxc_caps_init w)], Caps_init_failed_287, EXIT_FAILURE),
            ([ECaps_init 0], Std_identifiers_failed_290, EXIT_SUCCESS),
            ([ECaps_init 0], Fill_flags_failed_294, EXIT_SUCCESS)}"
  using assms by (auto simp add: main_def Let_def emit_def usage_def)

lemma main_need:
  assumes "getopt_loop w 0 opts main_init = Inr v"
    and "command \<noteq> []" and "w_lxc_caps_init w = 0"
    and "\<not> w_lxc_namespace_2_std_identifiers w (namespaces v) < 0"
    and "fst (w_lxc_fill_namespace_flags w (namespaces v)) = 0"
    and "fl = snd (w_lxc_fill_namespace_flags w (namespaces v))"
    and "fl AND CLONE_NEWNET = 0 \<and> my_iflist v \<noteq> []
         \<or> fl AND CLONE_NEWUTS = 0 \<and> want_hostname v \<noteq> None
         \<or> fl AND CLONE_NEWNS = 0 \<and> want_default_mounts v \<noteq> 0"
  shows "fst (main w opts command) = [ECaps_init 0]
       \<and> snd (snd (main w opts command)) = EXIT_FAILURE
       \<and> fst (snd (main w opts command)) \<in> {Need_network_298, Need_utsname_303, Need_mount_308}"
  using assms by (auto simp add: main_def Let_def emit_def)

lemma main_eventfd_failed:
  assumes "getopt_loop w 0 opts main_init = Inr v"
    and "command \<noteq> []" and "w_lxc_caps_init w = 0"
    and "\<not> w_lxc_namespace_2_std_identifiers w (namespaces v) < 0"
    and "fst (w_lxc_fill_namespace_flags w (namespaces v)) = 0"
    and "fl = snd (w_lxc_fill_namespace_flags w (namespaces v))"
    and "\<not> (fl AND CLONE_NEWNET = 0 \<and> my_iflist v \<noteq> [])"
    and "\<not> (fl AND CLONE_NEWUTS = 0 \<and> want_hostname v \<noteq> None)"
    and "\<not> (fl AND CLONE_NEWNS = 0 \<and> want_default_mounts v \<noteq> 0)"
    and "setuid v" and "w_eventfd w < 0"
  shows "main w opts command = ([ECaps_init 0, EEventfd (w_eventfd w)], Eventfd_failed_315, EXIT_FAILURE)"
  using assms by (auto simp add: main_def Let_def emit_def)

lemma main_launch:
  assumes "getopt_loop w 0 opts main_init = Inr v"
    and "command \<noteq> []" and "w_lxc_caps_init w = 0"
    and "\<not> w_lxc_namespace_2_std_identifiers w (namespaces v) < 0"
    and "fst (w_lxc_fill_namespace_flags w (namespaces v)) = 0"
    and "fl = snd (w_lxc_fill_namespace_flags w (namespaces v))"
    and "\<not> (fl AND CLONE_NEWNET = 0 \<and> my_iflist v \<noteq> [])"
    and "\<not> (fl AND CLONE_NEWUTS = 0 \<and> want_hostname v \<noteq> None)"
    and "\<not> (fl AND CLONE_NEWNS = 0 \<and> want_default_mounts v \<noteq> 0)"
    and "setuid v \<longrightarrow> \<not> w_eventfd w < 0"
  shows "main w opts command =
           emit (ECaps_init 0 # (if setuid v then [EEventfd (w_eventfd w)] else []))
             (launch w (v\<lparr>args := command, flags := fl,
                          wait_fd := (if setuid v then w_eventfd w else wait_fd v)\<rparr>))"
  using assms by (auto simp add: main_def Let_def emit_def)

lemma main_result_cases:
  assumes "getopt_loop w 0 opts main_init = Inr v"
  shows "main w opts command \<in>
           {([], No_command_280, EXIT_FAILURE),
            ([ECaps_init (w_lxc_caps_init w)], Caps_init_failed_287, EXIT_FAILURE),
            ([ECaps_init 0], Std_identifiers_failed_290, EXIT_SUCCESS),
            ([ECaps_init 0], Fill_flags_failed_294, EXIT_SUCCESS),
            ([ECaps_init 0], Need_network_298, EXIT_FAILURE),
            ([ECaps_init 0], Need_utsname_303, EXIT_FAILURE),
            ([ECaps_init 0], Need_mount_308, EXIT_FAILURE),
            ([ECaps_init 0, EEventfd (w_eventfd w)], Eventfd_failed_315, EXIT_FAILURE)}
       \<or> main w opts command =
           emit (ECaps_init 0 # (if setuid v then [EEventfd (w_eventfd w)] else []))
             (launch w (v\<lparr>args := command, flags := snd (w_lxc_fill_namespace_flags w (namespaces v)),
                          wait_fd := (if setuid v then w_eventfd w else wait_fd v)\<rparr>))"
proof (cases "command \<noteq> [] \<and> w_lxc_caps_init w = 0
           \<and> \<not> w_lxc_namespace_2_std_identifiers w (namespaces v) < 0
           \<and> fst (w_lxc_fill_namespace_flags w (namespaces v)) = 0")
  case False
  from main_early [OF assms False] show ?thesis
    by blast
next
  case val: True
  let ?fl = "snd (w_lxc_fill_namespace_flags w (namespaces v))"
  from val have a: "command \<noteq> []" "w_lxc_caps_init w = 0"
    "\<not> w_lxc_namespace_2_std_identifiers w (namespaces v) < 0"
    "fst (w_lxc_fill_namespace_flags w (namespaces v)) = 0" by simp_all
  show ?thesis
  proof (cases "?fl AND CLONE_NEWNET = 0 \<and> my_iflist v \<noteq> []
         \<or> ?fl AND CLONE_NEWUTS = 0 \<and> want_hostname v \<noteq> None
         \<or> ?fl AND CLONE_NEWNS = 0 \<and> want_default_mounts v \<noteq> 0")
    case True
    from main_need [OF assms a refl True]
    have "main w opts command = ([ECaps_init 0], fst (snd (main w opts command)), EXIT_FAILURE)"
      and "fst (snd (main w opts command)) \<in> {Need_network_298, Need_utsname_303, Need_mount_308}"
      by (simp_all add: prod_eq_iff)
    then show ?thesis
      by auto
  next
    case ok: False
    then have b: "\<not> (?fl AND CLONE_NEWNET = 0 \<and> my_iflist v \<noteq> [])"
      "\<not> (?fl AND CLONE_NEWUTS = 0 \<and> want_hostname v \<noteq> None)"
      "\<not> (?fl AND CLONE_NEWNS = 0 \<and> want_default_mounts v \<noteq> 0)" by simp_all
    show ?thesis
    proof (cases "setuid v \<and> w_eventfd w < 0")
      case True
      then have c: "setuid v" "w_eventfd w < 0" by simp_all
      from main_eventfd_failed [OF assms a refl b c] show ?thesis
        by simp
    next
      case False
      then have c: "setuid v \<longrightarrow> \<not> w_eventfd w < 0" by simp
      from main_launch [OF assms a refl b c] show ?thesis
        by simp
    qed
  qed
qed

lemma launch_sites_reach:
  assumes "getopt_loop w 0 opts main_init = Inr v"
    and "fst (snd (main w opts command)) \<in> launch_sites"
  shows "main w opts command =
           emit (ECaps_init 0 # (if setuid v then [EEventfd (w_eventfd w)] else []))
             (launch w (v\<lparr>args := command, flags := snd (w_lxc_fill_namespace_flags w (namespaces v)),
                          wait_fd := (if setuid v then w_eventfd w else wait_fd v)\<rparr>))"
  using main_result_cases [OF assms(1), of command] assms(2)
  by (auto simp add: launch_sites_def)

lemma move_interfaces_waits:
  "length (filter is_wait (move_interfaces w k ifs)) = length ifs"
  by (induction ifs arbitrary: k) (simp_all split: option.splits)

lemma move_interfaces_no_map:
  "filter is_write_id_mapping (move_interfaces w k ifs) = []"
  by (induction ifs arbitrary: k) (simp_all split: option.splits)

lemma write_uid_map_waits: "filter is_wait (fst (write_uid_map w v pid)) = []"
  by (simp add: write_uid_map_def Let_def)

lemma write_uid_map_line:
  "filter is_write_id_mapping (fst (write_uid_map w v pid)) =
     (if setuid v \<and> length (umap_line (uid v) (w_getuid w)) < 100
      then [EWrite_id_mapping pid (umap_line (uid v) (w_getuid w))
              (w_write_id_mapping w pid (umap_line (uid v) (w_getuid w)))]
      else [])"
  by (simp add: write_uid_map_def Let_def)

lemma write_uid_map_exit:
  "snd (write_uid_map w v pid) = Some e \<Longrightarrow>
     e \<in> {(Snprintf_failed_336, EXIT_FAILURE), (Uid_mapping_failed_343, EXIT_FAILURE),
          (Eventfd_write_failed_350, EXIT_FAILURE)}"
  by (auto simp add: write_uid_map_def Let_def split: if_splits)

lemma launch_fst:
  "fst (launch w v) =
     EClone (flags v) (start_arg.truncate v) (w_lxc_clone w (flags v)) #
       (if w_lxc_clone w (flags v) < 0 then []
        else fst (write_uid_map w v (w_lxc_clone w (flags v))) @
          (if snd (write_uid_map w v (w_lxc_clone w (flags v))) = None
           then move_interfaces w 0 (my_iflist v) @
             (if daemonize v \<noteq> 0 then []
              else [EWait_for_pid (w_lxc_clone w (flags v))
                      (w_wait_for_pid w (length (my_iflist v)) (w_lxc_clone w (flags v)))])
           else []))"
  by (auto simp add: launch_def Let_def emit_def seq_def split: option.splits)

lemma launch_snd:
  "snd (launch w v) =
     (if w_lxc_clone w (flags v) < 0 then (Clone_failed_322, EXIT_FAILURE)
      else case snd (write_uid_map w v (w_lxc_clone w (flags v))) of
          Some e \<Rightarrow> e
        | None \<Rightarrow>
            if daemonize v \<noteq> 0 then (Daemonize_383, EXIT_SUCCESS)
            else if w_wait_for_pid w (length (my_iflist v)) (w_lxc_clone w (flags v)) \<noteq> 0
            then (Wait_failed_387, EXIT_FAILURE)
            else (Guest_done_391, EXIT_SUCCESS))"
  by (auto simp add: launch_def Let_def emit_def seq_def split: option.splits)

lemma launch_map_writes:
  "filter is_write_id_mapping (fst (launch w v)) =
     (if \<not> w_lxc_clone w (flags v) < 0 \<and> setuid v \<and> length (umap_line (uid v) (w_getuid w)) < 100
      then [EWrite_id_mapping (w_lxc_clone w (flags v)) (umap_line (uid v) (w_getuid w))
              (w_write_id_mapping w (w_lxc_clone w (flags v)) (umap_line (uid v) (w_getuid w)))]
      else [])"
  by (simp add: launch_fst write_uid_map_line move_interfaces_no_map)

lemma launch_result:
  "snd (launch w v) \<in>
     {(Clone_failed_322, EXIT_FAILURE), (Snprintf_failed_336, EXIT_FAILURE),
      (Uid_mapping_failed_343, EXIT_FAILURE), (Eventfd_write_failed_350, EXIT_FAILURE),
      (Daemonize_383, EXIT_SUCCESS), (Wait_failed_387, EXIT_FAILURE), (Guest_done_391, EXIT_SUCCESS)}"
  using write_uid_map_exit [of w v "w_lxc_clone w (flags v)"]
  by (auto simp add: launch_snd split: option.splits)

lemma launch_Daemonize: "fst (snd (launch w v)) = Daemonize_383 \<Longrightarrow> daemonize v \<noteq> 0"
  using write_uid_map_exit [of w v "w_lxc_clone w (flags v)"]
  by (auto simp add: launch_snd split: option.splits if_splits)

lemma launch_Guest_done:
  "fst (snd (launch w v)) = Guest_done_391 \<Longrightarrow>
     last (fst (launch w v)) = EWait_for_pid (w_lxc_clone w (flags v)) 0"
  using write_uid_map_exit [of w v "w_lxc_clone w (flags v)"]
  by (auto simp add: launch_snd launch_fst split: option.splits if_splits)

section \<open>Evaluation in the sample world\<close>

lemmas world0_eval =
  world0_def main_def main_init_def lookup_user_def emit_def launch_def seq_def
  write_uid_map_def umap_line_def printf_d_uid_def show_int_def start_arg.truncate_def
  CLONE_NEWNET_def CLONE_NEWUTS_def CLONE_NEWNS_def CLONE_NEWUSER_def usage_def helper_def
  EXIT_SUCCESS_def EXIT_FAILURE_def Let_def

lemma show_nat_small [simp]: "show_nat 0 = ''0''" "show_nat 1 = ''1''"
  by code_simp+

lemma show_nat_1000: "show_nat 1000 = ''1000''"
  by code_simp

section \<open>Validation of the request\<close>

text \<open>
  C1, as amended. Take a request for which \<^verbatim>\<open>main\<close> reaches the checks of lines 296-309:
  the options were read, there is a command, \<^verbatim>\<open>lxc_caps_init\<close> succeeded, and
  \<^verbatim>\<open>lxc_namespace_2_std_identifiers\<close> and \<^verbatim>\<open>lxc_fill_namespace_flags\<close> accepted the
  namespace list and gave the flags \<open>fl\<close>. If an interface is given without the NETWORK
  flag, or a hostname without the UTS flag, or default mounts without the MOUNT flag,
  \<^verbatim>\<open>main\<close> exits with \<^verbatim>\<open>EXIT_FAILURE\<close> at one of the three checks, having made no call but
  \<^verbatim>\<open>lxc_caps_init\<close>: no \<^verbatim>\<open>lxc_clone\<close> and no \<^verbatim>\<open>fork\<close>. A \<^verbatim>\<open>-u\<close> without the USER flag is
  not checked: if none of the three holds and \<^verbatim>\<open>eventfd\<close> succeeds, \<^verbatim>\<open>main\<close> calls
  \<^verbatim>\<open>lxc_clone\<close> with those flags.
\<close>

theorem main_rejects_missing_flag:
  assumes "getopt_loop w 0 opts main_init = Inr v"
    and "command \<noteq> []" and "w_lxc_caps_init w = 0"
    and "\<not> w_lxc_namespace_2_std_identifiers w (namespaces v) < 0"
    and "w_lxc_fill_namespace_flags w (namespaces v) = (0, fl)"
  shows "(fl AND CLONE_NEWNET = 0 \<and> (\<exists>x. Opt_i x \<in> set opts)
          \<or> fl AND CLONE_NEWUTS = 0 \<and> (\<exists>x. Opt_H x \<in> set opts)
          \<or> fl AND CLONE_NEWNS = 0 \<and> Opt_M \<in> set opts
          \<longrightarrow> fst (main w opts command) = [ECaps_init 0]
              \<and> snd (snd (main w opts command)) = EXIT_FAILURE
              \<and> fst (snd (main w opts command))
                   \<in> {Need_network_298, Need_utsname_303, Need_mount_308})
       \<and> (\<not> (fl AND CLONE_NEWNET = 0 \<and> (\<exists>x. Opt_i x \<in> set opts)
              \<or> fl AND CLONE_NEWUTS = 0 \<and> (\<exists>x. Opt_H x \<in> set opts)
              \<or> fl AND CLONE_NEWNS = 0 \<and> Opt_M \<in> set opts)
          \<and> (\<exists>x. Opt_u x \<in> set opts) \<and> fl AND CLONE_NEWUSER = 0 \<and> \<not> w_eventfd w < 0
          \<longrightarrow> take 3 (fst (main w opts command))
                = [ECaps_init 0, EEventfd (w_eventfd w),
                   EClone fl (start_arg.truncate (v\<lparr>args := command, flags := fl,
                                                    wait_fd := w_eventfd w\<rparr>))
                     (w_lxc_clone w fl)])"
proof -
  have vars: "(my_iflist v \<noteq> [] \<longleftrightarrow> (\<exists>x. Opt_i x \<in> set opts))"
    "(want_hostname v \<noteq> None \<longleftrightarrow> (\<exists>x. Opt_H x \<in> set opts))"
    "(want_default_mounts v \<noteq> 0 \<longleftrightarrow> Opt_M \<in> set opts)"
    "(setuid v \<longleftrightarrow> (\<exists>x. Opt_u x \<in> set opts))"
    using getopt_loop_vars [OF assms(1)] by (simp_all add: main_init_def)
  have f: "fst (w_lxc_fill_namespace_flags w (namespaces v)) = 0"
    "fl = snd (w_lxc_fill_namespace_flags w (namespaces v))"
    using assms(5) by simp_all
  let ?viol = "fl AND CLONE_NEWNET = 0 \<and> (\<exists>x. Opt_i x \<in> set opts)
          \<or> fl AND CLONE_NEWUTS = 0 \<and> (\<exists>x. Opt_H x \<in> set opts)
          \<or> fl AND CLONE_NEWNS = 0 \<and> Opt_M \<in> set opts"
  have rejected: "fst (main w opts command) = [ECaps_init 0]
              \<and> snd (snd (main w opts command)) = EXIT_FAILURE
              \<and> fst (snd (main w opts command))
                   \<in> {Need_network_298, Need_utsname_303, Need_mount_308}"
    if "?viol"
  proof -
    have viol: "fl AND CLONE_NEWNET = 0 \<and> my_iflist v \<noteq> []
         \<or> fl AND CLONE_NEWUTS = 0 \<and> want_hostname v \<noteq> None
         \<or> fl AND CLONE_NEWNS = 0 \<and> want_default_mounts v \<noteq> 0"
      using that vars by blast
    show ?thesis
      by (rule main_need [OF assms(1-4) f viol])
  qed
  have cloned: "take 3 (fst (main w opts command))
                = [ECaps_init 0, EEventfd (w_eventfd w),
                   EClone fl (start_arg.truncate (v\<lparr>args := command, flags := fl,
                                                    wait_fd := w_eventfd w\<rparr>))
                     (w_lxc_clone w fl)]"
    if "\<not> ?viol" and "\<exists>x. Opt_u x \<in> set opts" and "\<not> w_eventfd w < 0"
  proof -
    have b: "\<not> (fl AND CLONE_NEWNET = 0 \<and> my_iflist v \<noteq> [])"
      "\<not> (fl AND CLONE_NEWUTS = 0 \<and> want_hostname v \<noteq> None)"
      "\<not> (fl AND CLONE_NEWNS = 0 \<and> want_default_mounts v \<noteq> 0)"
      using that(1) vars by blast+
    have s: "setuid v"
      using that(2) vars by blast
    have c: "setuid v \<longrightarrow> \<not> w_eventfd w < 0"
      using that(3) by simp
    show ?thesis
      using s by (simp add: main_launch [OF assms(1-4) f b c] fst_emit launch_fst)
  qed
  from rejected cloned show ?thesis
    by blast
qed

theorem main_rejects_missing_flag_witness:
  "fst (main world0 [Opt_s ''PID'', Opt_H ''guest''] [''/bin/true'']) = [ECaps_init 0]
   \<and> snd (snd (main world0 [Opt_s ''PID'', Opt_H ''guest''] [''/bin/true''])) = EXIT_FAILURE
   \<and> fst (snd (main world0 [Opt_s ''PID'', Opt_H ''guest''] [''/bin/true'']))
        \<in> {Need_network_298, Need_utsname_303, Need_mount_308}
   \<and> take 3 (fst (main world0 [Opt_s ''PID'', Opt_u ''1000''] [''/bin/true'']))
        = [ECaps_init 0, EEventfd (w_eventfd world0),
           EClone 0x20000000
             (start_arg.truncate
                (main_init\<lparr>uid := 1000, setuid := True, namespaces := Some ''PID'',
                            args := [''/bin/true''], flags := 0x20000000,
                            wait_fd := w_eventfd world0\<rparr>))
             (w_lxc_clone world0 0x20000000)]"
proof -
  let ?v = "main_init\<lparr>namespaces := Some ''PID'', want_hostname := Some ''guest''\<rparr>"
  let ?u = "main_init\<lparr>uid := 1000, setuid := True, namespaces := Some ''PID''\<rparr>"
  have h1: "getopt_loop world0 0 [Opt_s ''PID'', Opt_H ''guest''] main_init = Inr ?v"
    by simp
  have h2: "[''/bin/true''] \<noteq> []"
    by simp
  have h3: "w_lxc_caps_init world0 = 0"
    by (simp add: world0_def)
  have h4: "\<not> w_lxc_namespace_2_std_identifiers world0 (namespaces ?v) < 0"
    by (simp add: world0_def)
  have h5: "w_lxc_fill_namespace_flags world0 (namespaces ?v) = (0, 0x20000000)"
    by (simp add: world0_def)
  have h6: "(0x20000000 :: 32 word) AND CLONE_NEWNET = 0 \<and> (\<exists>x. Opt_i x \<in> set [Opt_s ''PID'', Opt_H ''guest''])
         \<or> (0x20000000 :: 32 word) AND CLONE_NEWUTS = 0 \<and> (\<exists>x. Opt_H x \<in> set [Opt_s ''PID'', Opt_H ''guest''])
         \<or> (0x20000000 :: 32 word) AND CLONE_NEWNS = 0 \<and> Opt_M \<in> set [Opt_s ''PID'', Opt_H ''guest'']"
    by (simp add: CLONE_NEWUTS_def)
  have r: "fst (main world0 [Opt_s ''PID'', Opt_H ''guest''] [''/bin/true'']) = [ECaps_init 0]
     \<and> snd (snd (main world0 [Opt_s ''PID'', Opt_H ''guest''] [''/bin/true''])) = EXIT_FAILURE
     \<and> fst (snd (main world0 [Opt_s ''PID'', Opt_H ''guest''] [''/bin/true'']))
          \<in> {Need_network_298, Need_utsname_303, Need_mount_308}"
    using main_rejects_missing_flag [OF h1 h2 h3 h4 h5] h6 by blast
  have g1: "getopt_loop world0 0 [Opt_s ''PID'', Opt_u ''1000''] main_init = Inr ?u"
    by (simp add: lookup_user_def world0_def main_init_def)
  have g4: "\<not> w_lxc_namespace_2_std_identifiers world0 (namespaces ?u) < 0"
    by (simp add: world0_def)
  have g5: "w_lxc_fill_namespace_flags world0 (namespaces ?u) = (0, 0x20000000)"
    by (simp add: world0_def)
  have g6: "\<not> ((0x20000000 :: 32 word) AND CLONE_NEWNET = 0 \<and> (\<exists>x. Opt_i x \<in> set [Opt_s ''PID'', Opt_u ''1000''])
         \<or> (0x20000000 :: 32 word) AND CLONE_NEWUTS = 0 \<and> (\<exists>x. Opt_H x \<in> set [Opt_s ''PID'', Opt_u ''1000''])
         \<or> (0x20000000 :: 32 word) AND CLONE_NEWNS = 0 \<and> Opt_M \<in> set [Opt_s ''PID'', Opt_u ''1000''])"
    by simp
  have g7: "\<exists>x. Opt_u x \<in> set [Opt_s ''PID'', Opt_u ''1000'']"
    by simp
  have g8: "(0x20000000 :: 32 word) AND CLONE_NEWUSER = 0"
    by (simp add: CLONE_NEWUSER_def)
  have g9: "\<not> w_eventfd world0 < 0"
    by (simp add: world0_def)
  have c: "take 3 (fst (main world0 [Opt_s ''PID'', Opt_u ''1000''] [''/bin/true'']))
        = [ECaps_init 0, EEventfd (w_eventfd world0),
           EClone 0x20000000
             (start_arg.truncate (?u\<lparr>args := [''/bin/true''], flags := 0x20000000,
                                       wait_fd := w_eventfd world0\<rparr>))
             (w_lxc_clone world0 0x20000000)]"
    using main_rejects_missing_flag [OF g1 h2 h3 g4 g5] g6 g7 g8 g9 by blast
  from r c show ?thesis
    by blast
qed

text \<open>
  The claim of C1 for the identity remap fails: with \<^verbatim>\<open>-s PID -u 1000\<close> the flags lack
  \<^verbatim>\<open>CLONE_NEWUSER\<close>, and \<^verbatim>\<open>main\<close> calls \<^verbatim>\<open>lxc_clone\<close>: the guest is created (line 212:
  "Setuid is useful even without a new user id space"). That holds in the world where
  \<^verbatim>\<open>write_id_mapping\<close> then works and in the world where it then fails.
\<close>

theorem main_remap_without_user_flag:
  "main world0 [Opt_s ''PID'', Opt_u ''1000''] [''/bin/true'']
     = ([ECaps_init 0, EEventfd 3,
         EClone 0x20000000
           \<lparr>args = [''/bin/true''], flags = 0x20000000, uid = 1000, setuid = True,
            want_default_mounts = 0, wait_fd = 3, want_hostname = None\<rparr> 4242,
         EWrite_id_mapping 4242 (''1000 0 1'' @ [CHR 0x0A]) 0, EWrite 3 8,
         EWait_for_pid 4242 0], Guest_done_391, 0)
   \<and> main (world0\<lparr>w_write_id_mapping := (\<lambda>pid line. - 1)\<rparr>) [Opt_s ''PID'', Opt_u ''1000''] [''/bin/true'']
     = ([ECaps_init 0, EEventfd 3,
         EClone 0x20000000
           \<lparr>args = [''/bin/true''], flags = 0x20000000, uid = 1000, setuid = True,
            want_default_mounts = 0, wait_fd = 3, want_hostname = None\<rparr> 4242,
         EWrite_id_mapping 4242 (''1000 0 1'' @ [CHR 0x0A]) (- 1), EClose 3],
        Uid_mapping_failed_343, 1)
   \<and> (0x20000000 :: 32 word) AND CLONE_NEWUSER = 0"
  by (simp add: world0_eval show_nat_1000)

section \<open>The uid map\<close>

text \<open>
  C2, as amended. Whenever \<^verbatim>\<open>main\<close> calls \<^verbatim>\<open>write_id_mapping\<close>, it does so once, for the
  process id that \<^verbatim>\<open>lxc_clone\<close> returned, and the line is
  \<^verbatim>\<open><target-uid> <requester-uid> 1\<close> followed by a newline: first the uid that
  \<^verbatim>\<open>lookup_user\<close> resolved from the last \<^verbatim>\<open>-u\<close>, then \<^verbatim>\<open>getuid()\<close>, both printed with
  \<^verbatim>\<open>%d\<close>.
\<close>

theorem main_umap_line:
  assumes "getopt_loop w 0 (pre @ Opt_u tok # post) main_init = Inr v"
    and "\<forall>x. Opt_u x \<notin> set post"
    and "EWrite_id_mapping p l r \<in> set (fst (main w (pre @ Opt_u tok # post) command))"
  shows "l = printf_d_uid (snd (lookup_user w (length pre) (Some tok) 0)) @ '' ''
               @ printf_d_uid (w_getuid w) @ '' 1'' @ [CHR 0x0A]
       \<and> p = w_lxc_clone w (snd (w_lxc_fill_namespace_flags w (namespaces v)))
       \<and> filter is_write_id_mapping (fst (main w (pre @ Opt_u tok # post) command))
           = [EWrite_id_mapping p l r]"
proof -
  let ?opts = "pre @ Opt_u tok # post"
  let ?v = "v\<lparr>args := command, flags := snd (w_lxc_fill_namespace_flags w (namespaces v)),
               wait_fd := (if setuid v then w_eventfd w else wait_fd v)\<rparr>"
  have u: "uid v = snd (lookup_user w (length pre) (Some tok) 0)"
    using getopt_loop_last_u [OF assms(1,2)] by simp
  have mem: "EWrite_id_mapping p l r \<in> set (filter is_write_id_mapping (fst (main w ?opts command)))"
    using assms(3) by simp
  from main_result_cases [OF assms(1), of command]
  have m: "main w ?opts command =
             emit (ECaps_init 0 # (if setuid v then [EEventfd (w_eventfd w)] else [])) (launch w ?v)"
    using assms(3) by auto
  have f: "filter is_write_id_mapping (fst (main w ?opts command))
             = filter is_write_id_mapping (fst (launch w ?v))"
    by (simp add: m fst_emit)
  from mem show ?thesis
    unfolding f launch_map_writes by (simp add: u umap_line_def split: if_splits)
qed

theorem main_umap_line_witness:
  "''1000 0 1'' @ [CHR 0x0A]
     = printf_d_uid (snd (lookup_user world0 (length [Opt_s ''USER'']) (Some ''1000'') 0)) @ '' ''
         @ printf_d_uid (w_getuid world0) @ '' 1'' @ [CHR 0x0A]
   \<and> 4242 = w_lxc_clone world0 (snd (w_lxc_fill_namespace_flags world0
               (namespaces (main_init\<lparr>uid := 1000, setuid := True, namespaces := Some ''USER''\<rparr>))))
   \<and> filter is_write_id_mapping (fst (main world0 ([Opt_s ''USER''] @ Opt_u ''1000'' # []) [''/bin/true'']))
       = [EWrite_id_mapping 4242 (''1000 0 1'' @ [CHR 0x0A]) 0]"
proof -
  have h1: "getopt_loop world0 0 ([Opt_s ''USER''] @ Opt_u ''1000'' # []) main_init
              = Inr (main_init\<lparr>uid := 1000, setuid := True, namespaces := Some ''USER''\<rparr>)"
    by (simp add: lookup_user_def world0_def main_init_def)
  have h2: "\<forall>x. Opt_u x \<notin> set []"
    by simp
  have h3: "EWrite_id_mapping 4242 (''1000 0 1'' @ [CHR 0x0A]) 0
              \<in> set (fst (main world0 ([Opt_s ''USER''] @ Opt_u ''1000'' # []) [''/bin/true'']))"
    by (simp add: world0_eval show_nat_1000)
  show ?thesis
    by (rule main_umap_line [OF h1 h2 h3])
qed

text \<open>
  The claim of C2 puts the requester's uid first. With the requester 0 and the target
  1000 the line written is \<^verbatim>\<open>1000 0 1\<close> and a newline, not \<^verbatim>\<open>0 1000 1\<close>.
\<close>

theorem main_umap_line_order:
  "filter is_write_id_mapping (fst (main world0 [Opt_s ''USER'', Opt_u ''1000''] [''/bin/true'']))
     = [EWrite_id_mapping 4242 (''1000 0 1'' @ [CHR 0x0A]) 0]
   \<and> w_getuid world0 = 0
   \<and> lookup_user world0 1 (Some ''1000'') 0 = (True, 1000)
   \<and> spec_umap_line 0 1000 = ''0 1000 1''
   \<and> ''1000 0 1'' @ [CHR 0x0A] \<noteq> spec_umap_line 0 1000
   \<and> ''1000 0 1'' @ [CHR 0x0A] \<noteq> spec_umap_line 0 1000 @ [CHR 0x0A]"
  by (simp add: world0_eval show_nat_1000 spec_umap_line_def)

section \<open>The interfaces\<close>

text \<open>
  C3. The claim: the process id handed to \<^verbatim>\<open>ip link set dev <if> netns <pid>\<close> is the
  guest's. In the code the \<^verbatim>\<open>pid\<close> printed at line 367 is the one declared at line 356,
  which holds what \<^verbatim>\<open>fork()\<close> returned to the helper: 0. With the guest 4242 and the
  interface \<^verbatim>\<open>eth0\<close> the helper runs \<^verbatim>\<open>ip link set dev eth0 netns 0\<close>.
\<close>

theorem main_helper_netns_argument:
  "main world0 [Opt_s ''NETWORK'', Opt_i ''eth0''] [''/bin/true'']
     = ([ECaps_init 0,
         EClone CLONE_NEWNET
           \<lparr>args = [''/bin/true''], flags = CLONE_NEWNET, uid = 0, setuid = False,
            want_default_mounts = 0, wait_fd = 0, want_hostname = None\<rparr> 4242,
         EFork 4243,
         EHelper (Inl [''ip'', ''link'', ''set'', ''dev'', ''eth0'', ''netns'', ''0'']),
         EWait_for_pid 4243 0,
         EWait_for_pid 4242 0], Guest_done_391, 0)"
  by (simp add: world0_eval)

text \<open>
  The same for every world and every interface.
\<close>

lemma move_interfaces_helper:
  "EHelper h \<in> set (move_interfaces w k ifs) \<Longrightarrow>
     \<exists>i \<in> set ifs. h = Inl [''ip'', ''link'', ''set'', ''dev'', i, ''netns'', ''0'']"
  by (induction ifs arbitrary: k) (auto simp add: helper_def show_int_def split: option.splits)

section \<open>The exit status\<close>

text \<open>
  C5, as amended. When \<^verbatim>\<open>main\<close> gets as far as line 382: with \<^verbatim>\<open>-d\<close> it exits with
  \<^verbatim>\<open>EXIT_SUCCESS\<close> and has called \<^verbatim>\<open>wait_for_pid\<close> once per interface helper and not for
  the guest; without \<^verbatim>\<open>-d\<close> its last call is \<^verbatim>\<open>wait_for_pid\<close> for the guest, and it exits
  with \<^verbatim>\<open>EXIT_SUCCESS\<close> if that returned 0 and with \<^verbatim>\<open>EXIT_FAILURE\<close> otherwise.
\<close>

theorem main_wait_or_detach:
  assumes "getopt_loop w 0 opts main_init = Inr v"
    and "main w opts command = (tr, site, code)"
    and "site \<in> {Daemonize_383, Wait_failed_387, Guest_done_391}"
    and "pid = w_lxc_clone w (snd (w_lxc_fill_namespace_flags w (namespaces v)))"
    and "r = w_wait_for_pid w (length (my_iflist v)) pid"
  shows "(Opt_d \<in> set opts \<longrightarrow>
            site = Daemonize_383 \<and> code = EXIT_SUCCESS
            \<and> length (filter is_wait tr) = length (my_iflist v))
       \<and> (Opt_d \<notin> set opts \<longrightarrow>
            last tr = EWait_for_pid pid r
            \<and> length (filter is_wait tr) = Suc (length (my_iflist v))
            \<and> code = (if r = 0 then EXIT_SUCCESS else EXIT_FAILURE))"
proof -
  let ?v = "v\<lparr>args := command, flags := snd (w_lxc_fill_namespace_flags w (namespaces v)),
               wait_fd := (if setuid v then w_eventfd w else wait_fd v)\<rparr>"
  let ?pre = "ECaps_init 0 # (if setuid v then [EEventfd (w_eventfd w)] else [])"
  have d: "daemonize v \<noteq> 0 \<longleftrightarrow> Opt_d \<in> set opts"
    using getopt_loop_vars [OF assms(1)] by (simp add: main_init_def)
  have "fst (snd (main w opts command)) \<in> launch_sites"
    using assms(2,3) by (auto simp add: launch_sites_def)
  from launch_sites_reach [OF assms(1) this]
  have m: "main w opts command = emit ?pre (launch w ?v)" .
  have s: "snd (launch w ?v) = (site, code)" and t: "tr = ?pre @ fst (launch w ?v)"
    using m assms(2) by (simp_all add: emit_def)
  from s assms(3) have c: "\<not> pid < 0" and um: "snd (write_uid_map w ?v pid) = None"
    using write_uid_map_exit [of w ?v pid]
    by (auto simp add: launch_snd assms(4) split: if_splits option.splits)
  have pre: "filter is_wait ?pre = []"
    by simp
  have tr: "tr = ?pre @ EClone (flags ?v) (start_arg.truncate ?v) pid # fst (write_uid_map w ?v pid)
              @ move_interfaces w 0 (my_iflist v)
              @ (if daemonize v \<noteq> 0 then [] else [EWait_for_pid pid r])"
    using c um by (simp add: t launch_fst assms(4,5))
  have n: "length (filter is_wait tr) = length (my_iflist v) + (if daemonize v \<noteq> 0 then 0 else 1)"
    unfolding tr by (simp add: write_uid_map_waits move_interfaces_waits)
  have l: "daemonize v = 0 \<Longrightarrow> last tr = EWait_for_pid pid r"
    unfolding tr by simp
  from s c um have sc: "(site, code) =
      (if daemonize v \<noteq> 0 then (Daemonize_383, EXIT_SUCCESS)
       else if r \<noteq> 0 then (Wait_failed_387, EXIT_FAILURE) else (Guest_done_391, EXIT_SUCCESS))"
    by (auto simp add: launch_snd assms(4,5) split: if_splits)
  show ?thesis
    using n l sc d by (auto split: if_splits)
qed

theorem main_wait_or_detach_witness:
  "length (filter is_wait (fst (main world0 [Opt_s ''NETWORK'', Opt_i ''eth0'', Opt_d] [''/bin/true''])))
     = length [''eth0'']
   \<and> snd (main world0 [Opt_s ''NETWORK'', Opt_i ''eth0'', Opt_d] [''/bin/true''])
       = (Daemonize_383, EXIT_SUCCESS)
   \<and> last (fst (main world0 [Opt_s ''NETWORK'', Opt_i ''eth0''] [''/bin/true'']))
       = EWait_for_pid 4242 0
   \<and> snd (main world0 [Opt_s ''NETWORK'', Opt_i ''eth0''] [''/bin/true''])
       = (Guest_done_391, EXIT_SUCCESS)"
proof -
  let ?d = "[Opt_s ''NETWORK'', Opt_i ''eth0'', Opt_d]"
  let ?n = "[Opt_s ''NETWORK'', Opt_i ''eth0'']"
  let ?vd = "main_init\<lparr>namespaces := Some ''NETWORK'', my_iflist := [''eth0''], daemonize := 1\<rparr>"
  let ?vn = "main_init\<lparr>namespaces := Some ''NETWORK'', my_iflist := [''eth0'']\<rparr>"
  have d1: "getopt_loop world0 0 ?d main_init = Inr ?vd"
    by (simp add: world0_def main_init_def)
  have d2: "main world0 ?d [''/bin/true'']
      = (fst (main world0 ?d [''/bin/true'']), Daemonize_383, snd (snd (main world0 ?d [''/bin/true''])))"
    by (simp add: world0_eval)
  have d3: "Daemonize_383 \<in> {Daemonize_383, Wait_failed_387, Guest_done_391}"
    by simp
  have d: "snd (snd (main world0 ?d [''/bin/true''])) = EXIT_SUCCESS
      \<and> length (filter is_wait (fst (main world0 ?d [''/bin/true'']))) = length (my_iflist ?vd)"
    using main_wait_or_detach [OF d1 d2 d3 refl refl] by simp
  have n1: "getopt_loop world0 0 ?n main_init = Inr ?vn"
    by (simp add: world0_def main_init_def)
  have n2: "main world0 ?n [''/bin/true'']
      = (fst (main world0 ?n [''/bin/true'']), Guest_done_391, snd (snd (main world0 ?n [''/bin/true''])))"
    by (simp add: world0_eval)
  have n3: "Guest_done_391 \<in> {Daemonize_383, Wait_failed_387, Guest_done_391}"
    by simp
  have n: "last (fst (main world0 ?n [''/bin/true''])) = EWait_for_pid 4242 0
      \<and> snd (snd (main world0 ?n [''/bin/true''])) = EXIT_SUCCESS"
    using main_wait_or_detach [OF n1 n2 n3 refl refl] by (simp add: world0_def main_init_def)
  from d d2 have "snd (main world0 ?d [''/bin/true'']) = (Daemonize_383, EXIT_SUCCESS)"
    by (metis snd_conv)
  moreover from n n2 have "snd (main world0 ?n [''/bin/true'']) = (Guest_done_391, EXIT_SUCCESS)"
    by (metis snd_conv)
  ultimately show ?thesis
    using d n by (simp add: main_init_def)
qed

text \<open>
  The claim of C5 has the status of \<^verbatim>\<open>main\<close> equal to the guest's, 7 for a guest that exits
  with 7. Whatever \<^verbatim>\<open>wait_for_pid\<close> returns for that guest (-1, 7 or 0), \<^verbatim>\<open>main\<close> exits
  with 1, 1 or 0.
\<close>

theorem main_guest_exit_7:
  "snd (snd (main (world0\<lparr>w_wait_for_pid := (\<lambda>k pid. - 1)\<rparr>) [Opt_s ''PID''] [''sh'', ''-c'', ''exit 7''])) = 1
   \<and> snd (snd (main (world0\<lparr>w_wait_for_pid := (\<lambda>k pid. 7)\<rparr>) [Opt_s ''PID''] [''sh'', ''-c'', ''exit 7''])) = 1
   \<and> snd (snd (main (world0\<lparr>w_wait_for_pid := (\<lambda>k pid. 0)\<rparr>) [Opt_s ''PID''] [''sh'', ''-c'', ''exit 7''])) = 0"
  by (simp add: world0_eval)

text \<open>
  C6, as amended. Leaving aside the two calls of \<^verbatim>\<open>usage\<close> after the namespace functions
  (lines 290 and 294): \<^verbatim>\<open>main\<close> exits with \<^verbatim>\<open>EXIT_SUCCESS\<close> or \<^verbatim>\<open>EXIT_FAILURE\<close>; it exits
  with \<^verbatim>\<open>EXIT_SUCCESS\<close> exactly at \<^verbatim>\<open>-h\<close> (line 269), at \<^verbatim>\<open>-d\<close> (line 383) and after
  \<^verbatim>\<open>wait_for_pid\<close> returned 0 for the guest (line 391), and with \<^verbatim>\<open>EXIT_FAILURE\<close> at every
  other exit: a failed allocation, an unresolved \<^verbatim>\<open>-u\<close>, no command, \<^verbatim>\<open>lxc_caps_init\<close>,
  the three option checks, \<^verbatim>\<open>eventfd\<close>, \<^verbatim>\<open>lxc_clone\<close>, the uid map, the write to the eventfd
  and a guest that \<^verbatim>\<open>wait_for_pid\<close> reports as failed.
\<close>

theorem main_exit_status:
  assumes "main w opts command = (tr, site, code)"
    and "site \<noteq> Std_identifiers_failed_290" and "site \<noteq> Fill_flags_failed_294"
  shows "(code = EXIT_SUCCESS \<or> code = EXIT_FAILURE)
       \<and> (code = EXIT_SUCCESS \<longleftrightarrow> site \<in> {Help_269, Daemonize_383, Guest_done_391})
       \<and> (site = Help_269 \<longrightarrow> Opt_h \<in> set opts)
       \<and> (site = Daemonize_383 \<longrightarrow> Opt_d \<in> set opts)
       \<and> (site = Guest_done_391 \<longrightarrow> (\<exists>pid. last tr = EWait_for_pid pid 0))"
proof (cases "getopt_loop w 0 opts main_init")
  case (Inl e)
  then have m: "main w opts command = ([], e)"
    by (rule main_Inl)
  with assms(1) have e: "e = (site, code)"
    by simp
  from getopt_loop_Inl [OF Inl] getopt_loop_Help [of w 0 opts main_init code] Inl
  show ?thesis
    unfolding e by (auto simp add: EXIT_SUCCESS_def EXIT_FAILURE_def)
next
  case (Inr v)
  let ?v = "v\<lparr>args := command, flags := snd (w_lxc_fill_namespace_flags w (namespaces v)),
               wait_fd := (if setuid v then w_eventfd w else wait_fd v)\<rparr>"
  let ?pre = "ECaps_init 0 # (if setuid v then [EEventfd (w_eventfd w)] else [])"
  from main_result_cases [OF Inr, of command]
  consider (early) "site \<in> {No_command_280, Caps_init_failed_287, Need_network_298, Need_utsname_303,
                       Need_mount_308, Eventfd_failed_315}" "code = EXIT_FAILURE"
    | (launch) "main w opts command = emit ?pre (launch w ?v)"
    using assms by auto
  then show ?thesis
  proof cases
    case early
    then show ?thesis
      by (auto simp add: EXIT_SUCCESS_def EXIT_FAILURE_def)
  next
    case launch
    then have s: "snd (launch w ?v) = (site, code)" and t: "tr = ?pre @ fst (launch w ?v)"
      using assms(1) by (simp_all add: emit_def)
    have ne: "fst (launch w ?v) \<noteq> []"
      by (simp add: launch_fst)
    have d: "site = Daemonize_383 \<longrightarrow> Opt_d \<in> set opts"
      using launch_Daemonize [of w ?v] s getopt_loop_vars [OF Inr] by (simp add: main_init_def)
    have g: "site = Guest_done_391 \<longrightarrow> (\<exists>pid. last tr = EWait_for_pid pid 0)"
      using launch_Guest_done [of w ?v] s ne by (simp add: t)
    from launch_result [of w ?v] s d g show ?thesis
      by (auto simp add: EXIT_SUCCESS_def EXIT_FAILURE_def)
  qed
qed

theorem main_exit_status_witness:
  "snd (snd (main world0 [Opt_s ''PID'', Opt_H ''guest''] [''/bin/true''])) = EXIT_FAILURE
   \<and> snd (snd (main world0 [Opt_s ''PID'', Opt_H ''guest''] [''/bin/true''])) \<noteq> EXIT_SUCCESS"
proof -
  have h1: "main world0 [Opt_s ''PID'', Opt_H ''guest''] [''/bin/true'']
              = ([ECaps_init 0], Need_utsname_303,
                 snd (snd (main world0 [Opt_s ''PID'', Opt_H ''guest''] [''/bin/true''])))"
    by (simp add: world0_eval)
  have h2: "Need_utsname_303 \<noteq> Std_identifiers_failed_290"
    by simp
  have h3: "Need_utsname_303 \<noteq> Fill_flags_failed_294"
    by simp
  from main_exit_status [OF h1 h2 h3] show ?thesis
    by blast
qed

text \<open>
  The claim of C6 has the status 0 only for a guest's success or a detach. \<^verbatim>\<open>-h\<close> ends
  \<^verbatim>\<open>main\<close> in \<^verbatim>\<open>usage\<close>, with \<^verbatim>\<open>EXIT_SUCCESS\<close> and no guest.
\<close>

theorem main_help_exit_status:
  "main world0 [Opt_h] [''/bin/true''] = ([], Help_269, 0)"
  by (simp add: world0_eval)

text \<open>
  The two exits left aside: a namespace list that \<^verbatim>\<open>lxc_fill_namespace_flags\<close> rejects
  ends \<^verbatim>\<open>main\<close> in \<^verbatim>\<open>usage\<close> as well, with \<^verbatim>\<open>EXIT_SUCCESS\<close>.
\<close>

lemma main_bad_namespaces_exit_status:
  "main world0 [Opt_s ''BOGUS''] [''/bin/true''] = ([ECaps_init 0], Fill_flags_failed_294, 0)"
  by (simp add: world0_eval)

section \<open>lookup_user\<close>

text \<open>
  C9. \<^verbatim>\<open>lookup_user\<close> returns true only for a token that is there and not empty and
  has an entry in the password database: found by \<^verbatim>\<open>getpwuid_r\<close> for the uid that \<^verbatim>\<open>%u\<close>
  read, or else by \<^verbatim>\<open>getpwnam_r\<close> for the name that \<^verbatim>\<open>%s\<close> read, and then \<^verbatim>\<open>*uid\<close> is that
  entry's uid. A numeric token without an entry is refused, a missing and an empty token
  are refused, and \<^verbatim>\<open>main\<close> exits with \<^verbatim>\<open>EXIT_FAILURE\<close> at the first \<^verbatim>\<open>-u\<close> that is refused,
  having made no call with an effect: no process is created.
\<close>

theorem lookup_user_needs_password_entry:
  "(fst (lookup_user w k tok u0) \<longrightarrow>
      (\<exists>s. tok = Some s \<and> s \<noteq> [] \<and>
         (case w_sscanf_u w s of
            Some u \<Rightarrow> w_getpwuid_r w u \<and> snd (lookup_user w k tok u0) = u
          | None \<Rightarrow> (\<exists>name. w_sscanf_s w s = Some name
                        \<and> w_getpwnam_r w name = Some (snd (lookup_user w k tok u0))))))
   \<and> (w_sscanf_u w s = Some u \<and> \<not> w_getpwuid_r w u \<longrightarrow> \<not> fst (lookup_user w k (Some s) u0))
   \<and> \<not> fst (lookup_user w k None u0) \<and> \<not> fst (lookup_user w k (Some []) u0)
   \<and> (getopt_loop w 0 pre main_init = Inr v \<and> \<not> fst (lookup_user w (length pre) (Some s) (uid v))
        \<longrightarrow> main w (pre @ Opt_u s # post) command = ([], Lookup_user_failed_273, EXIT_FAILURE))"
proof -
  have 1: "fst (lookup_user w k tok u0) \<longrightarrow>
      (\<exists>s. tok = Some s \<and> s \<noteq> [] \<and>
         (case w_sscanf_u w s of
            Some u \<Rightarrow> w_getpwuid_r w u \<and> snd (lookup_user w k tok u0) = u
          | None \<Rightarrow> (\<exists>name. w_sscanf_s w s = Some name
                        \<and> w_getpwnam_r w name = Some (snd (lookup_user w k tok u0)))))"
    by (auto simp add: lookup_user_def split: option.splits if_splits)
  have 2: "w_sscanf_u w s = Some u \<and> \<not> w_getpwuid_r w u \<longrightarrow> \<not> fst (lookup_user w k (Some s) u0)"
    by (simp add: lookup_user_def)
  have 3: "\<not> fst (lookup_user w k None u0)" "\<not> fst (lookup_user w k (Some []) u0)"
    by (simp_all add: lookup_user_def)
  have 4: "getopt_loop w 0 pre main_init = Inr v \<and> \<not> fst (lookup_user w (length pre) (Some s) (uid v))
        \<longrightarrow> main w (pre @ Opt_u s # post) command = ([], Lookup_user_failed_273, EXIT_FAILURE)"
    by (simp add: main_def getopt_loop_append)
  from 1 2 3 4 show ?thesis
    by blast
qed

theorem lookup_user_needs_password_entry_witness:
  "main world0 ([Opt_s ''USER''] @ Opt_u ''4711'' # []) [''/bin/true'']
     = ([], Lookup_user_failed_273, EXIT_FAILURE)
   \<and> w_getpwuid_r world0 1000 \<and> snd (lookup_user world0 1 (Some ''1000'') 0) = 1000"
proof -
  have h1: "getopt_loop world0 0 [Opt_s ''USER''] main_init = Inr (main_init\<lparr>namespaces := Some ''USER''\<rparr>)"
    by simp
  have h2: "w_sscanf_u world0 ''4711'' = Some 4711 \<and> \<not> w_getpwuid_r world0 4711"
    by (simp add: world0_def)
  have h3: "fst (lookup_user world0 1 (Some ''1000'') 0)"
    by (simp add: world0_def lookup_user_def)
  have h4: "w_sscanf_u world0 ''1000'' = Some 1000"
    by (simp add: world0_def)
  have a: "\<not> fst (lookup_user world0 (length [Opt_s ''USER'']) (Some ''4711'')
                   (uid (main_init\<lparr>namespaces := Some ''USER''\<rparr>)))"
    using lookup_user_needs_password_entry [of world0 "length [Opt_s ''USER'']" "Some ''4711''"
        "uid (main_init\<lparr>namespaces := Some ''USER''\<rparr>)" "''4711''" 4711] h2
    by blast
  have b: "main world0 ([Opt_s ''USER''] @ Opt_u ''4711'' # []) [''/bin/true'']
     = ([], Lookup_user_failed_273, EXIT_FAILURE)"
    using lookup_user_needs_password_entry [of world0 1 "Some ''4711''" 0 "''4711''" 4711
        "[Opt_s ''USER'']" "main_init\<lparr>namespaces := Some ''USER''\<rparr>" "[]" "[''/bin/true'']"] h1 a
    by blast
  have c: "w_getpwuid_r world0 1000 \<and> snd (lookup_user world0 1 (Some ''1000'') 0) = 1000"
    using lookup_user_needs_password_entry [of world0 1 "Some ''1000''" 0] h3 h4
    by auto
  from b c show ?thesis
    by blast
qed

section \<open>Order of calls in a list\<close>

lemma precedes_none: "\<forall>e \<in> set xs. \<not> Q e \<Longrightarrow> precedes P Q xs"
  by (induction xs) simp_all

lemma precedes_append:
  "precedes P Q (xs @ ys) \<longleftrightarrow> precedes P Q xs \<and> ((\<exists>a \<in> set xs. P a) \<or> precedes P Q ys)"
  by (induction xs) auto

lemma precedes_prefix: "prefix ys xs \<Longrightarrow> precedes P Q xs \<Longrightarrow> precedes P Q ys"
  by (auto simp add: prefix_def precedes_append)

lemma precedes_trans: "precedes P Q xs \<Longrightarrow> precedes Q R xs \<Longrightarrow> precedes P R xs"
  by (induction xs) auto

lemma precedes_filter:
  "precedes P Q (filter R xs) \<Longrightarrow> \<forall>e. Q e \<longrightarrow> R e \<Longrightarrow> precedes P Q xs"
  by (induction xs) (auto split: if_splits)

lemma precedes_mono:
  "precedes P Q xs \<Longrightarrow> \<forall>e \<in> set xs. P e \<longrightarrow> P' e \<Longrightarrow> \<forall>e \<in> set xs. Q' e \<longrightarrow> Q e
     \<Longrightarrow> precedes P' Q' xs"
  by (induction xs) auto

lemma precedes_map: "precedes P Q (map f xs) = precedes (\<lambda>x. P (f x)) (\<lambda>x. Q (f x)) xs"
  by (induction xs) auto

lemma precedes_occurs: "precedes P Q xs \<Longrightarrow> \<exists>e \<in> set xs. Q e \<Longrightarrow> \<exists>e \<in> set xs. P e"
  by (induction xs) auto

lemma eventfd_run_precedes:
  "eventfd_run fd c es \<Longrightarrow> c = 0 \<Longrightarrow> precedes (gate_signalled fd) (gate_passed fd) es"
  by (induction fd c es rule: eventfd_run.induct) (auto split: if_splits)

section \<open>Runs of parent and guest\<close>

lemma shuffles_filter_Guest:
  assumes "xs \<in> shuffles (map (Pair Parent) tp) (map (Pair Guest) tc)"
  shows "filter (\<lambda>x. fst x = Guest) xs = map (Pair Guest) tc"
    and "filter (\<lambda>x. fst x = Parent) xs = map (Pair Parent) tp"
proof -
  have "filter (\<lambda>x. fst x = Guest) xs
          \<in> filter (\<lambda>x. fst x = Guest) ` shuffles (map (Pair Parent) tp) (map (Pair Guest) tc)"
    using assms by blast
  then show "filter (\<lambda>x. fst x = Guest) xs = map (Pair Guest) tc"
    by (simp add: filter_shuffles filter_map comp_def)
  have "filter (\<lambda>x. fst x = Parent) xs
          \<in> filter (\<lambda>x. fst x = Parent) ` shuffles (map (Pair Parent) tp) (map (Pair Guest) tc)"
    using assms by blast
  then show "filter (\<lambda>x. fst x = Parent) xs = map (Pair Parent) tp"
    by (simp add: filter_shuffles filter_map comp_def)
qed

lemma precedes_Guest:
  assumes "xs \<in> shuffles (map (Pair Parent) tp) (map (Pair Guest) tc)"
    and "precedes P Q tc"
  shows "precedes (done_by Guest P) (done_by Guest Q) xs"
proof -
  have "precedes (done_by Guest P) (done_by Guest Q) (map (Pair Guest) tc)"
    using assms(2) by (simp add: precedes_map done_by_def)
  then have "precedes (done_by Guest P) (done_by Guest Q) (filter (\<lambda>x. fst x = Guest) xs)"
    by (simp add: shuffles_filter_Guest [OF assms(1)])
  then show ?thesis
    by (rule precedes_filter) (simp add: done_by_def)
qed

lemma precedes_Parent:
  assumes "xs \<in> shuffles (map (Pair Parent) tp) (map (Pair Guest) tc)"
    and "precedes P Q tp"
  shows "precedes (done_by Parent P) (done_by Parent Q) xs"
proof -
  have "precedes (done_by Parent P) (done_by Parent Q) (map (Pair Parent) tp)"
    using assms(2) by (simp add: precedes_map done_by_def)
  then have "precedes (done_by Parent P) (done_by Parent Q) (filter (\<lambda>x. fst x = Parent) xs)"
    by (simp add: shuffles_filter_Guest [OF assms(1)])
  then show ?thesis
    by (rule precedes_filter) (simp add: done_by_def)
qed

section \<open>The guest waits first\<close>

lemma fs_event_bootstrap: "is_fs_event e \<Longrightarrow> bootstrap_step e"
  by (cases e) simp_all

lemma lxc_setup_fs_bootstrap: "\<forall>e \<in> set (lxc_setup_fs w). bootstrap_step e"
proof -
  have "\<forall>e \<in> set (filter is_fs_event (lxc_setup_fs w)). bootstrap_step e"
    by (simp add: fs_event_bootstrap)
  then show ?thesis
    by (simp only: lxc_setup_fs_events)
qed

lemma do_start_gate_first:
  "setuid sa \<Longrightarrow> precedes (gate_passed (wait_fd sa)) bootstrap_step (fst (do_start w sa))"
  by (simp add: do_start_def fst_seq do_start_wait_def split: option.splits)

lemma do_start_first_call:
  "setuid sa \<Longrightarrow> prefix tc (fst (do_start w sa)) \<Longrightarrow> tc \<noteq> []
     \<Longrightarrow> \<exists>r. w_read w (wait_fd sa) = Some r \<and> hd tc = ERead (wait_fd sa) r"
  by (cases tc) (auto simp add: do_start_def fst_seq do_start_wait_def split: option.splits if_splits)

lemma do_start_tail_no_signal:
  "\<forall>e \<in> set (fst (seq (do_start_hostname w sa) (seq (do_start_setuid w sa) (do_start_exec w sa)))).
     \<not> gate_signalled fd e"
  by (simp add: fst_seq do_start_hostname_def do_start_setuid_def do_start_exec_def split: option.splits)

lemma do_start_no_signal: "\<forall>e \<in> set (fst (do_start w sa)). \<not> gate_signalled fd e"
proof -
  have fs: "\<forall>e \<in> set (lxc_setup_fs w). \<not> gate_signalled fd e"
  proof
    fix e assume "e \<in> set (lxc_setup_fs w)"
    with lxc_setup_fs_bootstrap have "bootstrap_step e" by blast
    then show "\<not> gate_signalled fd e" by (cases e) simp_all
  qed
  have w: "\<forall>e \<in> set (fst (do_start_wait w sa)). \<not> gate_signalled fd e"
    by (simp add: do_start_wait_def split: option.splits)
  have m: "\<forall>e \<in> set (fst (do_start_mounts w sa)). \<not> gate_signalled fd e"
    using fs by (simp add: do_start_mounts_def)
  show ?thesis
    using w m do_start_tail_no_signal [of w sa fd]
    by (auto simp add: do_start_def fst_seq [of "do_start_wait w sa"] fst_seq [of "do_start_mounts w sa"]
          split: option.splits)
qed

section \<open>The parent writes the map, then signals\<close>

lemma move_interfaces_no_signal: "\<forall>e \<in> set (move_interfaces w k ifs). \<not> gate_signalled fd e"
  by (induction ifs arbitrary: k) (simp_all split: option.splits)

lemma write_uid_map_order:
  "precedes map_written (gate_signalled fd) (fst (write_uid_map w v pid))"
  by (simp add: write_uid_map_def Let_def)

lemma write_uid_map_once:
  "length (filter (gate_signalled fd) (fst (write_uid_map w v pid))) \<le> 1"
  by (simp add: write_uid_map_def Let_def)

lemma filter_none: "\<forall>e \<in> set xs. \<not> P e \<Longrightarrow> filter P xs = []"
  by (simp add: filter_empty_conv)

lemma launch_order: "precedes map_written (gate_signalled fd) (fst (launch w v))"
  using write_uid_map_order [of fd w v "w_lxc_clone w (flags v)"]
    move_interfaces_no_signal [of w 0 "my_iflist v" fd]
  by (simp add: launch_fst precedes_append precedes_none)

lemma launch_once: "length (filter (gate_signalled fd) (fst (launch w v))) \<le> 1"
  using write_uid_map_once [of fd w v "w_lxc_clone w (flags v)"]
    move_interfaces_no_signal [of w 0 "my_iflist v" fd]
  by (simp add: launch_fst filter_none)

lemma main_order_once:
  "precedes map_written (gate_signalled fd) (fst (main w opts command))
   \<and> length (filter (gate_signalled fd) (fst (main w opts command))) \<le> 1"
proof (cases "getopt_loop w 0 opts main_init")
  case (Inl e)
  then show ?thesis
    by (simp add: main_Inl)
next
  case (Inr v)
  from main_result_cases [OF Inr, of command] show ?thesis
    using launch_order [of fd w] launch_once [of fd w]
    by (auto simp add: fst_emit)
qed

section \<open>The gate\<close>

lemma interleaving_signal_by_Parent:
  assumes "prefix tc (fst (do_start w' sa))"
    and "xs \<in> shuffles (map (Pair Parent) tp) (map (Pair Guest) tc)"
    and "x \<in> set xs" and "gate_signalled fd (snd x)"
  shows "done_by Parent (gate_signalled fd) x"
proof -
  have "set tc \<subseteq> set (fst (do_start w' sa))"
    using assms(1) by (rule set_mono_prefix)
  with do_start_no_signal [of w' sa fd] have "\<forall>e \<in> set tc. \<not> gate_signalled fd e"
    by blast
  with assms(3,4) set_shuffles [OF assms(2)] have "x \<in> set (map (Pair Parent) tp)"
    by auto
  with assms(4) show ?thesis
    by (auto simp add: done_by_def)
qed

lemma interleaving_order:
  assumes "setuid sa"
    and "prefix tp (fst (main w opts command))"
    and "prefix tc (fst (do_start w' sa))"
    and "xs \<in> shuffles (map (Pair Parent) tp) (map (Pair Guest) tc)"
    and "eventfd_run (wait_fd sa) 0 (map snd xs)"
  shows "precedes (done_by Parent map_written) (done_by Parent (gate_signalled (wait_fd sa))) xs"
    and "precedes (done_by Parent (gate_signalled (wait_fd sa))) (done_by Guest bootstrap_step) xs"
    and "length (filter (done_by Parent (gate_signalled (wait_fd sa))) xs) \<le> 1"
proof -
  let ?fd = "wait_fd sa"
  have p: "precedes map_written (gate_signalled ?fd) tp"
    using main_order_once [of ?fd w opts command] assms(2) by (blast intro: precedes_prefix)
  show mw: "precedes (done_by Parent map_written) (done_by Parent (gate_signalled ?fd)) xs"
    by (rule precedes_Parent [OF assms(4) p])
  have g: "precedes (gate_passed ?fd) bootstrap_step tc"
    using do_start_gate_first [OF assms(1), of w'] assms(3) by (blast intro: precedes_prefix)
  have gp: "precedes (done_by Guest (gate_passed ?fd)) (done_by Guest bootstrap_step) xs"
    by (rule precedes_Guest [OF assms(4) g])
  have e: "precedes (\<lambda>x. gate_signalled ?fd (snd x)) (\<lambda>x. gate_passed ?fd (snd x)) xs"
    using eventfd_run_precedes [OF assms(5) refl] by (simp add: precedes_map)
  have e': "precedes (done_by Parent (gate_signalled ?fd)) (done_by Guest (gate_passed ?fd)) xs"
    using e
  proof (rule precedes_mono)
    show "\<forall>x \<in> set xs. gate_signalled ?fd (snd x) \<longrightarrow> done_by Parent (gate_signalled ?fd) x"
      using interleaving_signal_by_Parent [OF assms(3,4)] by blast
    show "\<forall>x \<in> set xs. done_by Guest (gate_passed ?fd) x \<longrightarrow> gate_passed ?fd (snd x)"
      by (simp add: done_by_def)
  qed
  show "precedes (done_by Parent (gate_signalled ?fd)) (done_by Guest bootstrap_step) xs"
    by (rule precedes_trans [OF e' gp])
  have "filter (done_by Parent (gate_signalled ?fd)) xs
          = filter (done_by Parent (gate_signalled ?fd)) (filter (\<lambda>x. fst x = Parent) xs)"
    by (induction xs) (auto simp add: done_by_def)
  also have "\<dots> = map (Pair Parent) (filter (gate_signalled ?fd) tp)"
    by (simp add: shuffles_filter_Guest [OF assms(4)] filter_map comp_def done_by_def [abs_def])
  finally have "length (filter (done_by Parent (gate_signalled ?fd)) xs)
                  = length (filter (gate_signalled ?fd) tp)"
    by simp
  moreover obtain rest where "fst (main w opts command) = tp @ rest"
    using assms(2) by (auto simp add: prefix_def)
  then have "length (filter (gate_signalled ?fd) tp)
               \<le> length (filter (gate_signalled ?fd) (fst (main w opts command)))"
    by simp
  ultimately show "length (filter (done_by Parent (gate_signalled ?fd)) xs) \<le> 1"
    using main_order_once [of ?fd w opts command] by linarith
qed

lemma setuid_bootstrap: "is_setuid e \<Longrightarrow> bootstrap_step e"
  by (cases e) simp_all

text \<open>
  C7. The identity remap is requested (\<^verbatim>\<open>setuid\<close> is set in the guest's \<^verbatim>\<open>start_arg\<close>). In
  every run of the parent and the guest that the eventfd allows, with the count 0 at the
  start: a \<^verbatim>\<open>setuid\<close> of the guest has before it a \<^verbatim>\<open>write_id_mapping\<close> of the parent that
  returned without error; the parent's write to the eventfd has that \<^verbatim>\<open>write_id_mapping\<close>
  before it; the guest's \<^verbatim>\<open>setuid\<close> has the parent's write to the eventfd before it; and
  the parent writes to the eventfd at most once, exactly once in a run with a \<^verbatim>\<open>setuid\<close> of
  the guest. The parent's options and the worlds of the two processes are arbitrary.
\<close>

theorem uid_map_written_before_setuid:
  assumes "setuid sa"
    and "prefix tp (fst (main w opts command))"
    and "prefix tc (fst (do_start w' sa))"
    and "xs \<in> shuffles (map (Pair Parent) tp) (map (Pair Guest) tc)"
    and "eventfd_run (wait_fd sa) 0 (map snd xs)"
  shows "precedes (done_by Parent map_written) (done_by Guest is_setuid) xs
       \<and> precedes (done_by Parent map_written) (done_by Parent (gate_signalled (wait_fd sa))) xs
       \<and> precedes (done_by Parent (gate_signalled (wait_fd sa))) (done_by Guest is_setuid) xs
       \<and> length (filter (done_by Parent (gate_signalled (wait_fd sa))) xs) \<le> 1
       \<and> ((\<exists>x \<in> set xs. done_by Guest is_setuid x) \<longrightarrow>
            length (filter (done_by Parent (gate_signalled (wait_fd sa))) xs) = 1)"
proof -
  note o = interleaving_order [OF assms]
  have s: "precedes (done_by Parent (gate_signalled (wait_fd sa))) (done_by Guest is_setuid) xs"
    using o(2) by (rule precedes_mono) (simp_all add: done_by_def setuid_bootstrap)
  have "filter (done_by Parent (gate_signalled (wait_fd sa))) xs \<noteq> []"
    if "\<exists>x \<in> set xs. done_by Guest is_setuid x"
    using precedes_occurs [OF s that] by (simp add: filter_empty_conv)
  then have "length (filter (done_by Parent (gate_signalled (wait_fd sa))) xs) = 1"
    if "\<exists>x \<in> set xs. done_by Guest is_setuid x"
    using that o(3) by (cases "filter (done_by Parent (gate_signalled (wait_fd sa))) xs") auto
  with precedes_trans [OF o(1) s] o(1) s o(3) show ?thesis
    by blast
qed

theorem uid_map_written_before_setuid_witness:
  "precedes (done_by Parent map_written) (done_by Guest is_setuid)
     [(Parent, ECaps_init 0), (Parent, EEventfd 3),
      (Parent, EClone CLONE_NEWUSER
         \<lparr>args = [''/bin/true''], flags = CLONE_NEWUSER, uid = 1000, setuid = True,
          want_default_mounts = 0, wait_fd = 3, want_hostname = None\<rparr> 4242),
      (Parent, EWrite_id_mapping 4242 (''1000 0 1'' @ [CHR 0x0A]) 0),
      (Parent, EWrite 3 8),
      (Guest, ERead 3 8), (Guest, ESetuid 1000 0), (Guest, EExecvp [''/bin/true''] True),
      (Parent, EWait_for_pid 4242 0)]
   \<and> (Guest, ESetuid 1000 0) \<in> set
     [(Parent, ECaps_init 0), (Parent, EEventfd 3),
      (Parent, EClone CLONE_NEWUSER
         \<lparr>args = [''/bin/true''], flags = CLONE_NEWUSER, uid = 1000, setuid = True,
          want_default_mounts = 0, wait_fd = 3, want_hostname = None\<rparr> 4242),
      (Parent, EWrite_id_mapping 4242 (''1000 0 1'' @ [CHR 0x0A]) 0),
      (Parent, EWrite 3 8),
      (Guest, ERead 3 8), (Guest, ESetuid 1000 0), (Guest, EExecvp [''/bin/true''] True),
      (Parent, EWait_for_pid 4242 0)]
   \<and> length (filter (done_by Parent (gate_signalled 3))
     [(Parent, ECaps_init 0), (Parent, EEventfd 3),
      (Parent, EClone CLONE_NEWUSER
         \<lparr>args = [''/bin/true''], flags = CLONE_NEWUSER, uid = 1000, setuid = True,
          want_default_mounts = 0, wait_fd = 3, want_hostname = None\<rparr> 4242),
      (Parent, EWrite_id_mapping 4242 (''1000 0 1'' @ [CHR 0x0A]) 0),
      (Parent, EWrite 3 8),
      (Guest, ERead 3 8), (Guest, ESetuid 1000 0), (Guest, EExecvp [''/bin/true''] True),
      (Parent, EWait_for_pid 4242 0)]) = 1"
proof -
  let ?sa = "\<lparr>args = [''/bin/true''], flags = CLONE_NEWUSER, uid = 1000, setuid = True,
          want_default_mounts = 0, wait_fd = 3, want_hostname = None\<rparr>"
  let ?tp = "[ECaps_init 0, EEventfd 3, EClone CLONE_NEWUSER ?sa 4242,
      EWrite_id_mapping 4242 (''1000 0 1'' @ [CHR 0x0A]) 0, EWrite 3 8, EWait_for_pid 4242 0]"
  let ?tc = "[ERead 3 8, ESetuid 1000 0, EExecvp [''/bin/true''] True]"
  let ?xs = "[(Parent, ECaps_init 0), (Parent, EEventfd 3), (Parent, EClone CLONE_NEWUSER ?sa 4242),
      (Parent, EWrite_id_mapping 4242 (''1000 0 1'' @ [CHR 0x0A]) 0),
      (Parent, EWrite 3 8),
      (Guest, ERead 3 8), (Guest, ESetuid 1000 0), (Guest, EExecvp [''/bin/true''] True),
      (Parent, EWait_for_pid 4242 0)]"
  have h1: "setuid ?sa"
    by simp
  have p: "fst (main world0 [Opt_s ''USER'', Opt_u ''1000''] [''/bin/true'']) = ?tp"
    by (simp add: world0_eval show_nat_1000)
  have c: "fst (do_start world0 ?sa) = ?tc"
    by (simp add: do_start_def do_start_wait_def do_start_mounts_def do_start_hostname_def
        do_start_setuid_def do_start_exec_def seq_def world0_def CLONE_NEWNS_def CLONE_NEWUSER_def)
  have h2: "prefix ?tp (fst (main world0 [Opt_s ''USER'', Opt_u ''1000''] [''/bin/true'']))"
    by (simp only: p prefix_order.order_refl)
  have h3: "prefix ?tc (fst (do_start world0 ?sa))"
    by (simp only: c prefix_order.order_refl)
  have h4: "?xs \<in> shuffles (map (Pair Parent) ?tp) (map (Pair Guest) ?tc)"
    by (simp add: Cons_in_shuffles_iff)
  have h5: "eventfd_run (wait_fd ?sa) 0 (map snd ?xs)"
    by simp
  have h6: "\<exists>x \<in> set ?xs. done_by Guest is_setuid x"
    by (simp add: done_by_def)
  have fd: "wait_fd ?sa = 3"
    by simp
  note t = uid_map_written_before_setuid [OF h1 h2 h3 h4 h5]
  from t have a: "precedes (done_by Parent map_written) (done_by Guest is_setuid) ?xs"
    by (rule conjunct1)
  from t h6 have "length (filter (done_by Parent (gate_signalled (wait_fd ?sa))) ?xs) = 1"
    by blast
  then have b: "length (filter (done_by Parent (gate_signalled 3)) ?xs) = 1"
    by (simp only: fd)
  have c: "(Guest, ESetuid 1000 0) \<in> set ?xs"
    by simp
  from a b c show ?thesis
    by blast
qed

text \<open>
  C10. The identity remap is requested. The first call of the guest is the \<^verbatim>\<open>read\<close> on
  the eventfd, and in every run of the parent and the guest that the eventfd allows, every
  later step of the guest (\<^verbatim>\<open>umount\<close>, \<^verbatim>\<open>mount\<close>, \<^verbatim>\<open>access\<close>, \<^verbatim>\<open>mkdir\<close>, \<^verbatim>\<open>sethostname\<close>,
  \<^verbatim>\<open>setuid\<close>, \<^verbatim>\<open>execvp\<close>) has the parent's write to the eventfd before it.
\<close>

theorem bootstrap_after_gate:
  assumes "setuid sa"
    and "prefix tp (fst (main w opts command))"
    and "prefix tc (fst (do_start w' sa))"
    and "xs \<in> shuffles (map (Pair Parent) tp) (map (Pair Guest) tc)"
    and "eventfd_run (wait_fd sa) 0 (map snd xs)"
  shows "precedes (done_by Parent (gate_signalled (wait_fd sa))) (done_by Guest bootstrap_step) xs
       \<and> (tc = [] \<or> (\<exists>r. w_read w' (wait_fd sa) = Some r \<and> hd tc = ERead (wait_fd sa) r))"
  using interleaving_order(2) [OF assms] do_start_first_call [OF assms(1,3)]
  by blast

theorem bootstrap_after_gate_witness:
  "precedes (done_by Parent (gate_signalled 3)) (done_by Guest bootstrap_step)
     [(Parent, ECaps_init 0), (Parent, EEventfd 3),
      (Parent, EClone (CLONE_NEWNS OR CLONE_NEWUTS)
         \<lparr>args = [''sh''], flags = CLONE_NEWNS OR CLONE_NEWUTS, uid = 1000, setuid = True,
          want_default_mounts = 1, wait_fd = 3, want_hostname = Some ''guest''\<rparr> 4242),
      (Parent, EWrite_id_mapping 4242 (''1000 0 1'' @ [CHR 0x0A]) 0),
      (Parent, EWrite 3 8),
      (Guest, ERead 3 8),
      (Guest, EUmount ''/proc'' (- 1)), (Guest, EMount ''proc'' ''/proc'' ''proc'' 0)]
   \<and> hd [ERead 3 8, EUmount ''/proc'' (- 1), EMount ''proc'' ''/proc'' ''proc'' 0] = ERead 3 8"
proof -
  let ?sa = "\<lparr>args = [''sh''], flags = CLONE_NEWNS OR CLONE_NEWUTS, uid = 1000, setuid = True,
          want_default_mounts = 1, wait_fd = 3, want_hostname = Some ''guest''\<rparr>"
  let ?tp = "[ECaps_init 0, EEventfd 3, EClone (CLONE_NEWNS OR CLONE_NEWUTS) ?sa 4242,
      EWrite_id_mapping 4242 (''1000 0 1'' @ [CHR 0x0A]) 0, EWrite 3 8]"
  let ?tc = "[ERead 3 8, EUmount ''/proc'' (- 1), EMount ''proc'' ''/proc'' ''proc'' 0]"
  let ?xs = "[(Parent, ECaps_init 0), (Parent, EEventfd 3),
      (Parent, EClone (CLONE_NEWNS OR CLONE_NEWUTS) ?sa 4242),
      (Parent, EWrite_id_mapping 4242 (''1000 0 1'' @ [CHR 0x0A]) 0),
      (Parent, EWrite 3 8),
      (Guest, ERead 3 8),
      (Guest, EUmount ''/proc'' (- 1)), (Guest, EMount ''proc'' ''/proc'' ''proc'' 0)]"
  let ?opts = "[Opt_s ''MOUNT|UTSNAME'', Opt_u ''alice'', Opt_M, Opt_H ''guest'']"
  have h1: "setuid ?sa"
    by simp
  have p: "fst (main world0 ?opts [''sh'']) = ?tp @ [EWait_for_pid 4242 0]"
    by (simp add: world0_eval show_nat_1000)
  have c: "fst (do_start world0 ?sa) = ?tc @ drop 3 (fst (do_start world0 ?sa))"
    by (simp add: do_start_def do_start_wait_def do_start_mounts_def do_start_hostname_def
        do_start_setuid_def do_start_exec_def seq_def world0_def CLONE_NEWNS_def CLONE_NEWUTS_def
        lxc_setup_fs_def mount_fs_def)
  have h2: "prefix ?tp (fst (main world0 ?opts [''sh'']))"
    by (simp only: p prefixI)
  have h3: "prefix ?tc (fst (do_start world0 ?sa))"
    by (rule prefixI [OF c])
  have h4: "?xs \<in> shuffles (map (Pair Parent) ?tp) (map (Pair Guest) ?tc)"
    by (simp add: Cons_in_shuffles_iff)
  have h5: "eventfd_run (wait_fd ?sa) 0 (map snd ?xs)"
    by simp
  from bootstrap_after_gate [OF h1 h2 h3 h4 h5] show ?thesis
    by (simp add: world0_def)
qed

end
